theory Spec2Isabelle
  imports Main
begin

section \<open>Kinds, keys and identifiers\<close>

text \<open>
  \<^verbatim>\<open>schema.GroupVersionKind\<close> and the handler's static descriptor
  \<^verbatim>\<open>GroupVersionKindResource\<close> (groups.go). The descriptor carries the same
  three fields and adds the resource name and the two shape flags.
\<close>

record GroupVersionKind =
  Group :: string
  Version :: string
  Kind :: string

record GroupVersionKindResource = GroupVersionKind +
  Resource :: string
  Namespaced :: bool
  Singleton :: bool

definition GVK :: "GroupVersionKindResource \<Rightarrow> GroupVersionKind" where
  "GVK gvkr = \<lparr>Group = Group gvkr, Version = Version gvkr, Kind = Kind gvkr\<rparr>"

text \<open>
  \<^verbatim>\<open>storage.KindKey\<close> wraps a GroupVersionKind, \<^verbatim>\<open>runtime.NewIdentifier\<close>
  wraps a string, and \<^verbatim>\<open>storage.NewObjectKey\<close> pairs the two.
\<close>

type_synonym KindKey = GroupVersionKind
type_synonym Identifier = string
type_synonym ObjectKey = "KindKey \<times> Identifier"

definition NewKindKey :: "GroupVersionKind \<Rightarrow> KindKey" where
  "NewKindKey gvk = gvk"

definition NewObjectKey :: "KindKey \<Rightarrow> Identifier \<Rightarrow> ObjectKey" where
  "NewObjectKey kind ident = (kind, ident)"

section \<open>Objects and their capabilities\<close>

text \<open>
  An API object as the engine sees it: type meta, name and namespace, the rest of the
  payload, and the two optional capabilities of package meta. A capability field is
  \<open>None\<close> when the Go type does not implement the interface (\<^verbatim>\<open>Namespaced\<close>,
  \<^verbatim>\<open>Singleton\<close>), and \<open>Some b\<close> when its method returns \<open>b\<close>.
\<close>

record Object =
  TypeMeta :: GroupVersionKind
  Name :: string
  Namespace :: string
  Namespaced_impl :: "bool option"
  Singleton_impl :: "bool option"
  Payload :: string

text \<open>
  A value of type \<^verbatim>\<open>interface{}\<close>: either it implements \<^verbatim>\<open>metav1.Object\<close>
  (every runtime.Object and PartialObject does), or it is some other value, of which only
  the two capabilities matter.
\<close>

datatype Value = Metav1 Object | Other "bool option" "bool option"

fun Singleton_of :: "Value \<Rightarrow> bool option" where
  "Singleton_of (Metav1 obj) = Singleton_impl obj"
| "Singleton_of (Other ns sg) = sg"

fun Namespaced_of :: "Value \<Rightarrow> bool option" where
  "Namespaced_of (Metav1 obj) = Namespaced_impl obj"
| "Namespaced_of (Other ns sg) = ns"

text \<open>\<^verbatim>\<open>s, ok := obj.(Singleton); return ok && s.IsSingleton()\<close>, and the same for Namespaced.\<close>

definition IsSingleton :: "Value \<Rightarrow> bool" where
  "IsSingleton v = (case Singleton_of v of None \<Rightarrow> False | Some b \<Rightarrow> b)"

definition IsNamespaced :: "Value \<Rightarrow> bool" where
  "IsNamespaced v = (case Namespaced_of v of None \<Rightarrow> False | Some b \<Rightarrow> b)"

section \<open>Identity Resolver (package meta)\<close>

definition SingletonIdentifierKey :: string where
  "SingletonIdentifierKey = ''singleton''"

definition NameIdentifier :: "string \<Rightarrow> Identifier" where
  "NameIdentifier name = name"

text \<open>\<^verbatim>\<open>fmt.Sprintf("%s-%s", ns, name)\<close>\<close>

definition NameNamespaceIdentifier :: "string \<Rightarrow> string \<Rightarrow> Identifier" where
  "NameNamespaceIdentifier ns name = ns @ ''-'' @ name"

definition SingletonIdentifier :: Identifier where
  "SingletonIdentifier = SingletonIdentifierKey"

definition SingletonKey :: "KindKey \<Rightarrow> ObjectKey" where
  "SingletonKey kind = NewObjectKey kind SingletonIdentifier"

text \<open>
  \<^verbatim>\<open>Metav1NameIdentifierFactory.Identify\<close>: \<open>None\<close> is the Go result
  \<^verbatim>\<open>(nil, false)\<close>.
\<close>

definition Identify :: "Value \<Rightarrow> Identifier option" where
  "Identify v =
     (if IsSingleton v then Some SingletonIdentifier
      else case v of
        Metav1 obj \<Rightarrow>
          (if (case Namespaced_of v of Some b \<Rightarrow> \<not> b | None \<Rightarrow> False)
           then Some (NameIdentifier (Name obj))
           else if length (Namespace obj) = 0 \<or> length (Name obj) = 0 then None
           else Some (NameNamespaceIdentifier (Namespace obj) (Name obj)))
      | Other ns sg \<Rightarrow> None)"

section \<open>Errors\<close>

text \<open>
  Go \<^verbatim>\<open>error\<close> values. The two storage sentinels, \<^verbatim>\<open>fmt.Errorf\<close> values
  (format and arguments kept apart, none of the formats below wraps), an error that wraps
  another one (what \<^verbatim>\<open>errors.Unwrap\<close> sees), and the REST layer's
  \<^verbatim>\<open>*statusErrorImpl\<close> with its code and message. A message is either the text of an
  error (\<^verbatim>\<open>err.Error()\<close>) or a formatted string.
\<close>

datatype go_error =
    ErrNotFound
  | ErrAlreadyExists
  | Errorf string "fmt_arg list"
  | Wrapping string go_error
  | StatusError int message
and message = ErrorText go_error | Sprintf string "fmt_arg list"
and fmt_arg = Str string | Err go_error

text \<open>\<^verbatim>\<open>errors.Is\<close>: the error itself or any error down its chain of wrapped errors.\<close>

fun errors_Is :: "go_error \<Rightarrow> go_error \<Rightarrow> bool" where
  "errors_Is (Wrapping m inner) target = (Wrapping m inner = target \<or> errors_Is inner target)"
| "errors_Is err target = (err = target)"

definition newStatusError :: "int \<Rightarrow> go_error \<Rightarrow> go_error" where
  "newStatusError code err = StatusError code (ErrorText err)"

definition newStatusErrorf :: "int \<Rightarrow> string \<Rightarrow> fmt_arg list \<Rightarrow> go_error" where
  "newStatusErrorf code format args = StatusError code (Sprintf format args)"

definition StatusBadRequest :: int where
  "StatusBadRequest = 400"

definition StatusNotFound :: int where
  "StatusNotFound = 404"

definition StatusInternalServerError :: int where
  "StatusInternalServerError = 500"

definition StatusOK :: int where
  "StatusOK = 200"

definition StatusCreated :: int where
  "StatusCreated = 201"

definition StatusNoContent :: int where
  "StatusNoContent = 204"

section \<open>The collaborators and the state a request can change\<close>

text \<open>
  What a request can change: the state of the Object Store (of any type \<open>'s\<close>), the
  values added under the response's \<^verbatim>\<open>Warning\<close> header, the status code written and
  the object encoded into the response body.
\<close>

record 's World =
  Store :: 's
  Warning :: "message list"
  Status :: "int option"
  Written :: "Object option"

text \<open>
  The external collaborators, reached in the code through \<^verbatim>\<open>rc.Storage()\<close>: the
  operations of \<^verbatim>\<open>storage.Storage\<close> on the store's state, its serializer
  (\<^verbatim>\<open>Decoder().Decode\<close>, \<^verbatim>\<open>Defaulter().Default\<close>,
  \<^verbatim>\<open>Encoder().EncodeForGroupVersion\<close>), \<^verbatim>\<open>storage.DecodePartialObjects\<close> called
  with \<^verbatim>\<open>allowMultiple = false\<close> and no default kind, and the \<^verbatim>\<open>Validate\<close> methods
  of the registered types (\<open>None\<close>: the type is not Validatable). They are parameters:
  nothing is assumed about them but what a theorem states. A store operation and
  \<^verbatim>\<open>Validate\<close> read the object they are given and leave it as it is; what the
  defaulter makes of an object is its result.
\<close>

record 's Storage =
  Get :: "'s \<Rightarrow> ObjectKey \<Rightarrow> go_error + Object"
  Create :: "'s \<Rightarrow> Object \<Rightarrow> go_error option \<times> 's"
  Update :: "'s \<Rightarrow> Object \<Rightarrow> go_error option \<times> 's"
  Patch :: "'s \<Rightarrow> ObjectKey \<Rightarrow> string \<Rightarrow> go_error option \<times> 's"
  Delete :: "'s \<Rightarrow> ObjectKey \<Rightarrow> go_error option \<times> 's"
  ObjectKeyFor :: "Object \<Rightarrow> go_error + ObjectKey"
  Decode :: "go_error + string \<Rightarrow> go_error + Value"
  Default :: "Object \<Rightarrow> go_error + Object"
  Encode :: "string \<times> string \<Rightarrow> Object \<Rightarrow> go_error option"
  DecodePartialObjects :: "string \<Rightarrow> go_error + Object list"
  Validate :: "Object \<Rightarrow> go_error option option"

text \<open>\<^verbatim>\<open>meta.ValidateIfPossible\<close>\<close>

definition ValidateIfPossible :: "'s Storage \<Rightarrow> Object \<Rightarrow> go_error option" where
  "ValidateIfPossible st obj =
     (case Validate st obj of None \<Rightarrow> None | Some r \<Rightarrow> r)"

section \<open>Request Context Chain (context.go)\<close>

text \<open>
  Of the HTTP request the handlers use the body (the result of reading it to its end)
  and the \<^verbatim>\<open>default\<close> header (empty when absent).
\<close>

record Request =
  Body :: "go_error + string"
  Header_default :: string

text \<open>
  The context structs, each wrapping the one beneath. The storage context only adds the
  store handle and the warning header, so the chain starts at the resource context.
\<close>

datatype Context =
    resourceContextImpl Request GroupVersionKindResource
  | namespacedResourceContextImpl Context string
  | namedResourceContextImpl Context string

fun Resource_of :: "Context \<Rightarrow> GroupVersionKindResource" where
  "Resource_of (resourceContextImpl rq gvkr) = gvkr"
| "Resource_of (namespacedResourceContextImpl rc ns) = Resource_of rc"
| "Resource_of (namedResourceContextImpl rc name) = Resource_of rc"

fun Request_of :: "Context \<Rightarrow> Request" where
  "Request_of (resourceContextImpl rq gvkr) = rq"
| "Request_of (namespacedResourceContextImpl rc ns) = Request_of rc"
| "Request_of (namedResourceContextImpl rc name) = Request_of rc"

definition KindKey_of :: "Context \<Rightarrow> KindKey" where
  "KindKey_of rc = NewKindKey (GVK (Resource_of rc))"

definition ShouldDefault :: "Context \<Rightarrow> bool" where
  "ShouldDefault rc =
     (let h = Header_default (Request_of rc) in length h = 0 \<or> h = ''true'')"

text \<open>
  The type assertions \<^verbatim>\<open>rc.(NamespacedResourceContext)\<close> and
  \<^verbatim>\<open>c.(NamedResourceContext)\<close>. A named context embeds the ResourceContext
  interface only, so it is not itself a NamespacedResourceContext, whatever it wraps.
\<close>

fun as_NamespacedResourceContext :: "Context \<Rightarrow> string option" where
  "as_NamespacedResourceContext (namespacedResourceContextImpl rc ns) = Some ns"
| "as_NamespacedResourceContext rc = None"

fun as_NamedResourceContext :: "Context \<Rightarrow> (Context \<times> string) option" where
  "as_NamedResourceContext (namedResourceContextImpl rc name) = Some (rc, name)"
| "as_NamedResourceContext rc = None"

text \<open>\<^verbatim>\<open>namedResourceContextImpl.ObjectKey\<close>, of the wrapped context and the name.\<close>

definition ObjectKey_of :: "Context \<Rightarrow> string \<Rightarrow> ObjectKey" where
  "ObjectKey_of rc name =
     (case as_NamespacedResourceContext rc of
        Some ns \<Rightarrow> NewObjectKey (KindKey_of rc) (NameNamespaceIdentifier ns name)
      | None \<Rightarrow> NewObjectKey (KindKey_of rc) (NameIdentifier name))"

text \<open>\<^verbatim>\<open>Warnf\<close>: \<^verbatim>\<open>Header().Add("Warning", ...)\<close> appends a value.\<close>

definition Warnf :: "string \<Rightarrow> fmt_arg list \<Rightarrow> 's World \<Rightarrow> 's World" where
  "Warnf format args w = w\<lparr>Warning := Warning w @ [Sprintf format args]\<rparr>"

text \<open>
  The middlewares, as the context each hands to the next handler, or the error it returns
  instead. The string argument is the path parameter (\<^verbatim>\<open>rc.Param\<close>, empty when the
  route has none).
\<close>

definition resourceContextMiddleware :: "GroupVersionKindResource \<Rightarrow> Request \<Rightarrow> Context" where
  "resourceContextMiddleware gvkr rq = resourceContextImpl rq gvkr"

definition namespacedResourceContextMiddleware :: "Context \<Rightarrow> string \<Rightarrow> go_error + Context" where
  "namespacedResourceContextMiddleware rc namespace =
     (if \<not> Namespaced (Resource_of rc)
      then Inl (newStatusErrorf StatusInternalServerError
             ''NamespacedResourceContext middleware requires a Namespaced resource'' [])
      else if namespace = ''''
      then Inl (newStatusErrorf StatusBadRequest ''namespace parameter is mandatory'' [])
      else Inr (namespacedResourceContextImpl rc namespace))"

definition namedResourceContextMiddleware :: "Context \<Rightarrow> string \<Rightarrow> go_error + Context" where
  "namedResourceContextMiddleware rc name =
     (if name = ''''
      then Inl (newStatusErrorf StatusBadRequest ''name parameter is mandatory'' [])
      else Inr (namedResourceContextImpl rc name))"

section \<open>Resource Handler (resource.go)\<close>

subsection \<open>Routes\<close>

text \<open>
  The router, as far as route construction uses it: a group is a path prefix with the
  middlewares its routes inherit; registering a route on a group records the method, the
  full path, the handler and the middlewares that run before it; a sub-group appends to
  the prefix and to the middlewares. Handlers and middlewares are recorded by name.
\<close>

datatype Method = GET | POST | PUT | PATCH | DELETE

datatype HandlerFunc =
  rh_list | rh_create | rh_patch | rh_update | rh_getSingleton | rh_get | rh_delete

datatype MiddlewareFunc =
    resourceContextMW GroupVersionKindResource
  | namespacedResourceContextMW
  | namedResourceContextMW

record Route =
  RouteMethod :: Method
  RoutePath :: string
  RouteHandler :: HandlerFunc
  RouteMiddleware :: "MiddlewareFunc list"

record EchoGroup =
  GroupPrefix :: string
  GroupMiddleware :: "MiddlewareFunc list"

definition Group_Add ::
  "EchoGroup \<Rightarrow> Method \<Rightarrow> string \<Rightarrow> HandlerFunc \<Rightarrow> MiddlewareFunc list \<Rightarrow> Route list \<Rightarrow> Route list" where
  "Group_Add grp method path h m routes =
     routes @ [\<lparr>RouteMethod = method, RoutePath = GroupPrefix grp @ path, RouteHandler = h,
                 RouteMiddleware = GroupMiddleware grp @ m\<rparr>]"

definition Group_Group :: "EchoGroup \<Rightarrow> string \<Rightarrow> MiddlewareFunc list \<Rightarrow> EchoGroup" where
  "Group_Group parent pre m =
     \<lparr>GroupPrefix = GroupPrefix parent @ pre, GroupMiddleware = GroupMiddleware parent @ m\<rparr>"

definition nameParamPath :: string where
  "nameParamPath = ''/:name/''"

subsection \<open>The handler and its hooks\<close>

text \<open>
  A hook receives the context (and through it the store and the response) and, for an
  object hook, the decoded object, which it may change; it returns an error or nil.
\<close>

type_synonym 's ObjectHookHandler =
  "Context \<Rightarrow> Object \<Rightarrow> 's World \<Rightarrow> go_error option \<times> Object \<times> 's World"

type_synonym 's NamedResourceHookHandler =
  "Context \<Rightarrow> 's World \<Rightarrow> go_error option \<times> 's World"

record 's resourceHandlerImpl =
  rh_g :: EchoGroup
  rh_gvkr :: GroupVersionKindResource
  postHooks :: "'s ObjectHookHandler list"
  putHooks :: "'s ObjectHookHandler list"
  deleteHooks :: "'s NamedResourceHookHandler list"

text \<open>
  \<^verbatim>\<open>newResourceHandler\<close>: the handler, and the routes it registers added to those
  already registered.
\<close>

definition newResourceHandler ::
  "EchoGroup \<Rightarrow> GroupVersionKindResource \<Rightarrow> Route list \<Rightarrow> 's resourceHandlerImpl \<times> Route list" where
  "newResourceHandler parent gvkr routes =
     (let resourcePath = ''/'' @ Resource gvkr;
          (grp, routes1) =
            (if Namespaced gvkr
             then (Group_Group parent (''/namespaces/:namespace'' @ resourcePath)
                     [resourceContextMW gvkr, namespacedResourceContextMW],
                   Group_Add parent GET (resourcePath @ ''/'') rh_list
                     [resourceContextMW gvkr] routes)
             else (Group_Group parent resourcePath [resourceContextMW gvkr], routes));
          routes2 = Group_Add grp POST ''/'' rh_create [] routes1;
          routes3 = Group_Add grp PATCH ''/'' rh_patch [] routes2;
          routes4 = Group_Add grp PUT ''/'' rh_update [] routes3;
          routes5 =
            (if Singleton gvkr
             then Group_Add grp GET ''/'' rh_getSingleton [] routes4
             else Group_Add grp DELETE nameParamPath rh_delete [namedResourceContextMW]
                    (Group_Add grp GET nameParamPath rh_get [namedResourceContextMW]
                      (Group_Add grp GET ''/'' rh_list [] routes4)))
      in (\<lparr>rh_g = grp, rh_gvkr = gvkr, postHooks = [], putHooks = [], deleteHooks = []\<rparr>,
          routes5))"

definition RegisterPOSTHook ::
  "'s ObjectHookHandler \<Rightarrow> 's resourceHandlerImpl \<Rightarrow> 's resourceHandlerImpl" where
  "RegisterPOSTHook handler rh = rh\<lparr>postHooks := postHooks rh @ [handler]\<rparr>"

definition RegisterPUTHook ::
  "'s ObjectHookHandler \<Rightarrow> 's resourceHandlerImpl \<Rightarrow> 's resourceHandlerImpl" where
  "RegisterPUTHook handler rh = rh\<lparr>putHooks := putHooks rh @ [handler]\<rparr>"


text \<open>
  The loops \<^verbatim>\<open>for _, hook := range hooks { if err := hook(...); err != nil { return err } }\<close>:
  the result is the first error, with the object and the state as that hook left them, or
  nil after the last hook.
\<close>

fun runObjectHooks ::
  "'s ObjectHookHandler list \<Rightarrow> Context \<Rightarrow> Object \<Rightarrow> 's World \<Rightarrow> go_error option \<times> Object \<times> 's World" where
  "runObjectHooks [] rc obj w = (None, obj, w)"
| "runObjectHooks (hook # hooks) rc obj w =
     (case hook rc obj w of
        (Some err, obj', w') \<Rightarrow> (Some err, obj', w')
      | (None, obj', w') \<Rightarrow> runObjectHooks hooks rc obj' w')"

fun runNamedHooks ::
  "'s NamedResourceHookHandler list \<Rightarrow> Context \<Rightarrow> 's World \<Rightarrow> go_error option \<times> 's World" where
  "runNamedHooks [] rc w = (None, w)"
| "runNamedHooks (hook # hooks) rc w =
     (case hook rc w of
        (Some err, w') \<Rightarrow> (Some err, w')
      | (None, w') \<Rightarrow> runNamedHooks hooks rc w')"

subsection \<open>Body validation and decoding\<close>

text \<open>
  \<^verbatim>\<open>validateBody\<close> returns the error (or nil) together with the object, whose
  namespace it may have pruned, and the state, to which it may have added a warning.
\<close>

definition validateBody ::
  "'s Storage \<Rightarrow> 's resourceHandlerImpl \<Rightarrow> Context \<Rightarrow> Object \<Rightarrow> 's World \<Rightarrow> go_error option \<times> Object \<times> 's World" where
  "validateBody st rh rc obj w =
     (case (if \<not> Singleton (rh_gvkr rh)
            then (if Name obj = '''' then Inl (Errorf ''name must be set'' [])
                  else if IsNamespaced (Metav1 obj)
                  then (if Namespace obj = ''''
                        then Inl (Errorf ''.metadata.namespace must be set for namespaced object'' [])
                        else Inr (obj, w))
                  else (if Namespace obj \<noteq> ''''
                        then Inr (obj\<lparr>Namespace := ''''\<rparr>,
                                  Warnf ''Non-namespaced resources must not have the .metadata.namespace field set. Pruning the field'' [] w)
                        else Inr (obj, w)))
            else Inr (obj, w)) of
        Inl err \<Rightarrow> (Some err, obj, w)
      | Inr (obj1, w1) \<Rightarrow>
          (case as_NamespacedResourceContext rc of
             Some ns \<Rightarrow>
               (if ns \<noteq> Namespace obj1
                then (Some (Errorf ''Object namespace in body: %q doesn't match namespace in path: %q''
                              [Str (Namespace obj1), Str ns]), obj1, w1)
                else (ValidateIfPossible st obj1, obj1, w1))
           | None \<Rightarrow> (ValidateIfPossible st obj1, obj1, w1)))"

definition decodeObject ::
  "'s Storage \<Rightarrow> 's resourceHandlerImpl \<Rightarrow> Context \<Rightarrow> 's World \<Rightarrow> (go_error + Object) \<times> 's World" where
  "decodeObject st rh rc w =
     (case Decode st (Body (Request_of rc)) of
        Inl err \<Rightarrow> (Inl (newStatusError StatusBadRequest err), w)
      | Inr kobj \<Rightarrow>
          (case kobj of
             Other ns sg \<Rightarrow>
               (Inl (newStatusErrorf StatusInternalServerError
                       ''couldn't cast decoded object to runtime.Object'' []), w)
           | Metav1 obj \<Rightarrow>
               (case validateBody st rh rc obj w of
                  (Some err, obj', w') \<Rightarrow> (Inl (newStatusError StatusBadRequest err), w')
                | (None, obj', w') \<Rightarrow> (Inr obj', w'))))"

subsection \<open>The operations\<close>

text \<open>
  What a handler does to the request: it returns an error or nil, or it panics (a failed
  type assertion, an index out of range).
\<close>

datatype outcome = Panic | Return "go_error option"

text \<open>
  \<^verbatim>\<open>resourceContextImpl.JSONIndent\<close> as the operations below call it, with one
  object: conditional defaulting, the status code, then the encoding for the handler's
  group and version. (Its other branch defaults the items of a list, for the list
  operation.)
\<close>

definition JSONIndent ::
  "'s Storage \<Rightarrow> Context \<Rightarrow> int \<Rightarrow> Object \<Rightarrow> 's World \<Rightarrow> go_error option \<times> 's World" where
  "JSONIndent st rc code obj w =
     (case (if ShouldDefault rc then Default st obj else Inr obj) of
        Inl err \<Rightarrow> (Some err, w)
      | Inr obj' \<Rightarrow>
          (let w' = w\<lparr>Status := Some code\<rparr> in
           case Encode st (Group (Resource_of rc), Version (Resource_of rc)) obj' of
             Some err \<Rightarrow> (Some err, w')
           | None \<Rightarrow> (None, w'\<lparr>Written := Some obj'\<rparr>)))"

definition returnFromStorage ::
  "'s Storage \<Rightarrow> 's resourceHandlerImpl \<Rightarrow> Context \<Rightarrow> ObjectKey \<Rightarrow> 's World \<Rightarrow> go_error option \<times> 's World" where
  "returnFromStorage st rh rc key w =
     (case Get st (Store w) key of
        Inl err \<Rightarrow>
          (if errors_Is err ErrNotFound
           then (Some (newStatusError StatusNotFound ErrNotFound), w)
           else (Some err, w))
      | Inr obj \<Rightarrow> JSONIndent st rc StatusOK obj w)"

definition returning :: "go_error option \<times> 's World \<Rightarrow> outcome \<times> 's World" where
  "returning r = (Return (fst r), snd r)"

definition create ::
  "'s Storage \<Rightarrow> 's resourceHandlerImpl \<Rightarrow> Context \<Rightarrow> 's World \<Rightarrow> outcome \<times> 's World" where
  "create st rh rc w =
     (case decodeObject st rh rc w of
        (Inl err, w1) \<Rightarrow> (Return (Some err), w1)
      | (Inr obj, w1) \<Rightarrow>
          (case runObjectHooks (postHooks rh) rc obj w1 of
             (Some err, obj2, w2) \<Rightarrow> (Return (Some err), w2)
           | (None, obj2, w2) \<Rightarrow>
               (case Create st (Store w2) obj2 of
                  (Some err, s3) \<Rightarrow>
                    (if errors_Is err ErrAlreadyExists
                     then (Return (Some (newStatusError StatusBadRequest ErrAlreadyExists)),
                           w2\<lparr>Store := s3\<rparr>)
                     else (Return (Some (newStatusError StatusInternalServerError err)),
                           w2\<lparr>Store := s3\<rparr>))
                | (None, s3) \<Rightarrow>
                    returning (JSONIndent st rc StatusCreated obj2 (w2\<lparr>Store := s3\<rparr>)))))"

text \<open>
  \<^verbatim>\<open>customPartialObject{objs[0], rh.gvkr.Namespaced, rh.gvkr.Singleton}\<close>: the partial
  object with \<^verbatim>\<open>IsNamespaced\<close> and \<^verbatim>\<open>IsSingleton\<close> answered by the two fields.
\<close>

definition customPartialObject :: "Object \<Rightarrow> bool \<Rightarrow> bool \<Rightarrow> Object" where
  "customPartialObject po namespaced singleton =
     po\<lparr>Namespaced_impl := Some namespaced, Singleton_impl := Some singleton\<rparr>"

definition patch ::
  "'s Storage \<Rightarrow> 's resourceHandlerImpl \<Rightarrow> Context \<Rightarrow> 's World \<Rightarrow> outcome \<times> 's World" where
  "patch st rh rc w =
     (case Body (Request_of rc) of
        Inl err \<Rightarrow> (Return (Some err), w)
      | Inr bytes \<Rightarrow>
          (case DecodePartialObjects st bytes of
             Inl err \<Rightarrow>
               (Return (Some (newStatusErrorf StatusBadRequest ''couldn't decode patch: %v'' [Err err])), w)
           | Inr objs \<Rightarrow>
               (case objs of
                  [] \<Rightarrow> (Panic, w)
                | po # rest \<Rightarrow>
                    (let patchObj = customPartialObject po (Namespaced (rh_gvkr rh)) (Singleton (rh_gvkr rh)) in
                     case ObjectKeyFor st patchObj of
                       Inl err \<Rightarrow> (Return (Some err), w)
                     | Inr key \<Rightarrow>
                         (case Patch st (Store w) key bytes of
                            (Some err, s1) \<Rightarrow> (Return (Some err), w\<lparr>Store := s1\<rparr>)
                          | (None, s1) \<Rightarrow>
                              returning (returnFromStorage st rh rc key (w\<lparr>Store := s1\<rparr>)))))))"

definition update ::
  "'s Storage \<Rightarrow> 's resourceHandlerImpl \<Rightarrow> Context \<Rightarrow> 's World \<Rightarrow> outcome \<times> 's World" where
  "update st rh rc w =
     (case decodeObject st rh rc w of
        (Inl err, w1) \<Rightarrow> (Return (Some err), w1)
      | (Inr obj, w1) \<Rightarrow>
          (case runObjectHooks (putHooks rh) rc obj w1 of
             (Some err, obj2, w2) \<Rightarrow> (Return (Some err), w2)
           | (None, obj2, w2) \<Rightarrow>
               (case Update st (Store w2) obj2 of
                  (Some err, s3) \<Rightarrow> (Return (Some err), w2\<lparr>Store := s3\<rparr>)
                | (None, s3) \<Rightarrow>
                    returning (JSONIndent st rc StatusOK obj2 (w2\<lparr>Store := s3\<rparr>)))))"

definition get ::
  "'s Storage \<Rightarrow> 's resourceHandlerImpl \<Rightarrow> Context \<Rightarrow> 's World \<Rightarrow> outcome \<times> 's World" where
  "get st rh c w =
     (case as_NamedResourceContext c of
        None \<Rightarrow> (Panic, w)
      | Some (rc, name) \<Rightarrow> returning (returnFromStorage st rh c (ObjectKey_of rc name) w))"

definition getSingleton ::
  "'s Storage \<Rightarrow> 's resourceHandlerImpl \<Rightarrow> Context \<Rightarrow> 's World \<Rightarrow> outcome \<times> 's World" where
  "getSingleton st rh rc w =
     returning (returnFromStorage st rh rc (SingletonKey (KindKey_of rc)) w)"


section \<open>The route table as the specification words it\<close>

text \<open>
  The specification's table of routes per kind, for comparison with
  \<^verbatim>\<open>newResourceHandler\<close>: methods and paths below the parent group's prefix.
  Row 1 (cluster-scoped, plural): \<^verbatim>\<open>GET,POST,PUT /resource/\<close> and
  \<^verbatim>\<open>GET,DELETE /resource/:name/\<close>. Row 2 (namespaced, plural):
  \<^verbatim>\<open>GET,POST,PUT /resource/\<close>, \<^verbatim>\<open>GET /namespaces/:ns/resource/\<close> and
  \<^verbatim>\<open>GET,DELETE /namespaces/:ns/resource/:name/\<close>. Row 3 (singleton):
  \<^verbatim>\<open>GET,PATCH /resource/\<close> only. The namespace parameter is written as the
  code names it, \<^verbatim>\<open>:namespace\<close>.
\<close>

definition spec_table_routes :: "string \<Rightarrow> GroupVersionKindResource \<Rightarrow> (Method \<times> string) set" where
  "spec_table_routes pre gvkr =
     (let r = pre @ ''/'' @ Resource gvkr;
          n = pre @ ''/namespaces/:namespace/'' @ Resource gvkr
      in if Singleton gvkr then {(GET, r @ ''/''), (PATCH, r @ ''/'')}
         else if Namespaced gvkr
         then {(GET, r @ ''/''), (POST, r @ ''/''), (PUT, r @ ''/''), (GET, n @ ''/''),
               (GET, n @ ''/:name/''), (DELETE, n @ ''/:name/'')}
         else {(GET, r @ ''/''), (POST, r @ ''/''), (PUT, r @ ''/''),
               (GET, r @ ''/:name/''), (DELETE, r @ ''/:name/'')})"

definition method_path :: "Route \<Rightarrow> Method \<times> string" where
  "method_path r = (RouteMethod r, RoutePath r)"

definition method_path_handler :: "Route \<Rightarrow> Method \<times> string \<times> HandlerFunc" where
  "method_path_handler r = (RouteMethod r, RoutePath r, RouteHandler r)"

section \<open>A concrete store, codec and kinds to run the handlers on\<close>

text \<open>
  The theorems below hold for every store and codec. To evaluate the handlers at concrete
  requests, here is one instance: a store that keeps its objects in an association list
  and computes keys with \<^verbatim>\<open>Metav1NameIdentifierFactory\<close> (as cmd/digitized/main.go
  configures the generic storage), a codec that knows a few request bodies, and the three
  kinds of the application: Project (cluster-scoped), Cassette (namespaced) and Recorder
  (singleton).
\<close>

type_synonym memStore = "(ObjectKey \<times> Object) list"

definition memObjectKeyFor :: "Object \<Rightarrow> go_error + ObjectKey" where
  "memObjectKeyFor obj =
     (case Identify (Metav1 obj) of
        None \<Rightarrow> Inl (Errorf ''couldn't identify object'' [])
      | Some ident \<Rightarrow> Inr (NewObjectKey (NewKindKey (TypeMeta obj)) ident))"

definition memGet :: "memStore \<Rightarrow> ObjectKey \<Rightarrow> go_error + Object" where
  "memGet s key = (case map_of s key of None \<Rightarrow> Inl ErrNotFound | Some obj \<Rightarrow> Inr obj)"

definition memCreate :: "memStore \<Rightarrow> Object \<Rightarrow> go_error option \<times> memStore" where
  "memCreate s obj =
     (case memObjectKeyFor obj of
        Inl err \<Rightarrow> (Some err, s)
      | Inr key \<Rightarrow>
          (case map_of s key of
             Some old \<Rightarrow> (Some (Wrapping ''create'' ErrAlreadyExists), s)
           | None \<Rightarrow> (None, (key, obj) # s)))"

definition memUpdate :: "memStore \<Rightarrow> Object \<Rightarrow> go_error option \<times> memStore" where
  "memUpdate s obj =
     (case memObjectKeyFor obj of
        Inl err \<Rightarrow> (Some err, s)
      | Inr key \<Rightarrow> (None, (key, obj) # s))"

definition memPatch :: "memStore \<Rightarrow> ObjectKey \<Rightarrow> string \<Rightarrow> go_error option \<times> memStore" where
  "memPatch s key bytes =
     (case map_of s key of
        None \<Rightarrow> (Some ErrNotFound, s)
      | Some obj \<Rightarrow> (None, (key, obj\<lparr>Payload := bytes\<rparr>) # s))"

definition memDelete :: "memStore \<Rightarrow> ObjectKey \<Rightarrow> go_error option \<times> memStore" where
  "memDelete s key =
     (case map_of s key of
        None \<Rightarrow> (Some ErrNotFound, s)
      | Some obj \<Rightarrow> (None, filter (\<lambda>kv. fst kv \<noteq> key) s))"

definition digitizedGV :: "string \<times> string" where
  "digitizedGV = (''digitized.luxaslabs.com'', ''v1alpha1'')"

definition kindGVK :: "string \<Rightarrow> GroupVersionKind" where
  "kindGVK k = \<lparr>Group = fst digitizedGV, Version = snd digitizedGV, Kind = k\<rparr>"

definition projectsGVKR :: GroupVersionKindResource where
  "projectsGVKR = \<lparr>Group = fst digitizedGV, Version = snd digitizedGV, Kind = ''Project'',
                    Resource = ''projects'', Namespaced = False, Singleton = False\<rparr>"

definition cassettesGVKR :: GroupVersionKindResource where
  "cassettesGVKR = \<lparr>Group = fst digitizedGV, Version = snd digitizedGV, Kind = ''Cassette'',
                     Resource = ''cassettes'', Namespaced = True, Singleton = False\<rparr>"

definition recorderGVKR :: GroupVersionKindResource where
  "recorderGVKR = \<lparr>Group = fst digitizedGV, Version = snd digitizedGV, Kind = ''Recorder'',
                    Resource = ''recorder'', Namespaced = False, Singleton = True\<rparr>"

definition aProject :: "string \<Rightarrow> string \<Rightarrow> Object" where
  "aProject ns name =
     \<lparr>TypeMeta = kindGVK ''Project'', Name = name, Namespace = ns,
      Namespaced_impl = Some False, Singleton_impl = None, Payload = ''{}''\<rparr>"

definition aCassette :: "string \<Rightarrow> string \<Rightarrow> Object" where
  "aCassette ns name =
     \<lparr>TypeMeta = kindGVK ''Cassette'', Name = name, Namespace = ns,
      Namespaced_impl = Some True, Singleton_impl = None, Payload = ''{}''\<rparr>"

definition aRecorder :: "string \<Rightarrow> string \<Rightarrow> Object" where
  "aRecorder ns name =
     \<lparr>TypeMeta = kindGVK ''Recorder'', Name = name, Namespace = ns,
      Namespaced_impl = Some False, Singleton_impl = Some True, Payload = ''{}''\<rparr>"

text \<open>
  The bodies the codec knows. A partial object carries no capability of its own. The
  partial decoder answers a body of no frame or of two frames with an error, as its
  single-object mode does.
\<close>

definition memDecode :: "go_error + string \<Rightarrow> go_error + Value" where
  "memDecode body =
     (case body of
        Inl err \<Rightarrow> Inl err
      | Inr bytes \<Rightarrow>
          (case map_of
             [(''project p1'', Metav1 (aProject '''' ''p1'')),
              (''project p1 in foo'', Metav1 (aProject ''foo'' ''p1'')),
              (''project unnamed'', Metav1 (aProject '''' '''')),
              (''cassette p1/001'', Metav1 (aCassette ''p1'' ''001'')),
              (''cassette /001'', Metav1 (aCassette '''' ''001'')),
              (''recorder'', Metav1 (aRecorder '''' '''')),
              (''recorder in foo'', Metav1 (aRecorder ''foo'' ''''))] bytes of
             None \<Rightarrow> Inl (Errorf ''couldn't decode body'' [])
           | Some v \<Rightarrow> Inr v))"

definition aPartial :: "string \<Rightarrow> string \<Rightarrow> string \<Rightarrow> Object" where
  "aPartial k ns name =
     \<lparr>TypeMeta = kindGVK k, Name = name, Namespace = ns,
      Namespaced_impl = None, Singleton_impl = None, Payload = ''''\<rparr>"

definition memDecodePartialObjects :: "string \<Rightarrow> go_error + Object list" where
  "memDecodePartialObjects bytes =
     (case map_of
        [(''patch cassette p1/001'', Inr [aPartial ''Cassette'' ''p1'' ''001'']),
         (''patch project p1'', Inr [aPartial ''Project'' '''' ''p1'']),
         (''patch recorder named x in y'', Inr [aPartial ''Recorder'' ''y'' ''x'']),
         ('''', Inl (Errorf ''unexpected number of frames: %d expected 1'' [Str ''0''])),
         (''patch a --- patch b'', Inl (Errorf ''unexpected number of frames: %d expected 1'' [Str ''2'']))]
        bytes of
        None \<Rightarrow> Inl (Errorf ''couldn't decode frame'' [])
      | Some r \<Rightarrow> r)"

definition memStorage :: "memStore Storage" where
  "memStorage =
     \<lparr>Get = memGet, Create = memCreate, Update = memUpdate, Patch = memPatch,
      Delete = memDelete, ObjectKeyFor = memObjectKeyFor, Decode = memDecode,
      Default = (\<lambda>obj. Inr obj), Encode = (\<lambda>gv obj. None),
      DecodePartialObjects = memDecodePartialObjects, Validate = (\<lambda>obj. None)\<rparr>"

definition request :: "string \<Rightarrow> Request" where
  "request bytes = \<lparr>Body = Inr bytes, Header_default = ''false''\<rparr>"

definition world0 :: "memStore \<Rightarrow> memStore World" where
  "world0 s = \<lparr>Store = s, Warning = [], Status = None, Written = None\<rparr>"

definition apiGroup :: EchoGroup where
  "apiGroup = \<lparr>GroupPrefix = ''/apis/digitized.luxaslabs.com/v1alpha1'', GroupMiddleware = []\<rparr>"

text \<open>
  Hooks to run the handlers with: one that leaves a mark in the warnings and succeeds,
  one that fails with a given error, each for objects and for named contexts.
\<close>

definition markHook :: "string \<Rightarrow> memStore ObjectHookHandler" where
  "markHook m rc obj w = (None, obj, Warnf m [] w)"






text \<open>A handler for cassettes with one hook on create and one on update.\<close>

definition hookedCassettes :: "memStore resourceHandlerImpl" where
  "hookedCassettes =
     (RegisterPUTHook (markHook ''seen'')
     (RegisterPOSTHook (markHook ''seen'')
       (fst (newResourceHandler apiGroup cassettesGVKR []))))"

section \<open>Properties of the Identity Resolver\<close>

lemma takeWhile_until:
  "x \<notin> set xs \<Longrightarrow> takeWhile (\<lambda>c. c \<noteq> x) (xs @ x # ys) = xs"
  by (induction xs) auto

lemma separator_split_unique:
  assumes "x \<notin> set xs" and "x \<notin> set xs'" and "xs @ x # ys = xs' @ x # ys'"
  shows "xs = xs' \<and> ys = ys'"
proof -
  have "xs = takeWhile (\<lambda>c. c \<noteq> x) (xs @ x # ys)"
    using assms(1) by (simp add: takeWhile_until)
  also have "\<dots> = takeWhile (\<lambda>c. c \<noteq> x) (xs' @ x # ys')"
    using assms(3) by simp
  also have "\<dots> = xs'"
    using assms(2) by (simp add: takeWhile_until)
  finally have "xs = xs'" .
  with assms(3) show ?thesis by simp
qed

lemma NameNamespaceIdentifier_same_name:
  "NameNamespaceIdentifier ns name = NameNamespaceIdentifier ns2 name \<longleftrightarrow> ns = ns2"
  by (simp add: NameNamespaceIdentifier_def)

lemma NameNamespaceIdentifier_same_namespace:
  "NameNamespaceIdentifier ns name = NameNamespaceIdentifier ns name2 \<longleftrightarrow> name = name2"
  by (simp add: NameNamespaceIdentifier_def)

lemma NameNamespaceIdentifier_dash_free:
  assumes "CHR ''-'' \<notin> set ns" and "CHR ''-'' \<notin> set ns2"
    and "NameNamespaceIdentifier ns name = NameNamespaceIdentifier ns2 name2"
  shows "ns = ns2 \<and> name = name2"
  using assms separator_split_unique [of "CHR ''-''" ns ns2 name name2]
  by (simp add: NameNamespaceIdentifier_def)

lemma NameNamespaceIdentifier_length:
  "length (NameNamespaceIdentifier ns name) = length ns + 1 + length name"
  by (simp add: NameNamespaceIdentifier_def)

lemma NameNamespaceIdentifier_not_name:
  "NameNamespaceIdentifier ns name \<noteq> NameIdentifier name"
proof
  assume "NameNamespaceIdentifier ns name = NameIdentifier name"
  then have "length (NameNamespaceIdentifier ns name) = length (NameIdentifier name)" by simp
  then show False by (simp add: NameNamespaceIdentifier_length NameIdentifier_def)
qed

lemma Identify_namespaced:
  assumes "IsNamespaced (Metav1 obj)" and "\<not> IsSingleton (Metav1 obj)"
    and "Namespace obj \<noteq> ''''" and "Name obj \<noteq> ''''"
  shows "Identify (Metav1 obj) = Some (NameNamespaceIdentifier (Namespace obj) (Name obj))"
  using assms by (auto simp: Identify_def IsNamespaced_def split: option.splits)

lemma Identify_cluster_scoped:
  assumes "Namespaced_impl obj = Some False" and "\<not> IsSingleton (Metav1 obj)"
  shows "Identify (Metav1 obj) = Some (NameIdentifier (Name obj))"
  using assms by (simp add: Identify_def)

lemma Identify_singleton:
  assumes "IsSingleton v"
  shows "Identify v = Some SingletonIdentifierKey"
  using assms by (simp add: Identify_def SingletonIdentifier_def)

lemma ObjectKey_of_namespaced:
  "ObjectKey_of (namespacedResourceContextImpl rc ns) name =
     (KindKey_of rc, NameNamespaceIdentifier ns name)"
  by (simp add: ObjectKey_of_def NewObjectKey_def KindKey_of_def)

lemma ObjectKey_of_cluster:
  "as_NamespacedResourceContext rc = None \<Longrightarrow>
   ObjectKey_of rc name = (KindKey_of rc, NameIdentifier name)"
  by (simp add: ObjectKey_of_def NewObjectKey_def)

text \<open>
  Claim C1, as the code has it. For objects of a namespaced, non-singleton kind with a
  non-empty namespace and name, the identifier is the namespace, a dash and the name, on
  the object path (\<^verbatim>\<open>Identify\<close>) and on the request path (\<^verbatim>\<open>ObjectKey\<close>)
  alike. Two namespaces with one name give two identifiers, and so do two names in one
  namespace. Two distinct pairs give distinct identifiers when neither namespace holds a
  dash. The identifier differs from the cluster-scoped identifier of the same name.
\<close>

theorem namespaced_identifier:
  assumes "IsNamespaced (Metav1 a)" and "\<not> IsSingleton (Metav1 a)"
    and "Namespace a \<noteq> ''''" and "Name a \<noteq> ''''"
    and "IsNamespaced (Metav1 b)" and "\<not> IsSingleton (Metav1 b)"
    and "Namespace b \<noteq> ''''" and "Name b \<noteq> ''''"
  shows "Identify (Metav1 a) = Some (Namespace a @ ''-'' @ Name a)
    \<and> snd (ObjectKey_of (namespacedResourceContextImpl rc (Namespace a)) (Name a))
        = Namespace a @ ''-'' @ Name a
    \<and> (Name a = Name b \<and> Namespace a \<noteq> Namespace b
        \<longrightarrow> Identify (Metav1 a) \<noteq> Identify (Metav1 b))
    \<and> (Namespace a = Namespace b \<and> Name a \<noteq> Name b
        \<longrightarrow> Identify (Metav1 a) \<noteq> Identify (Metav1 b))
    \<and> (CHR ''-'' \<notin> set (Namespace a) \<and> CHR ''-'' \<notin> set (Namespace b)
        \<and> (Namespace a, Name a) \<noteq> (Namespace b, Name b)
        \<longrightarrow> Identify (Metav1 a) \<noteq> Identify (Metav1 b))
    \<and> (\<forall>c. Namespaced_impl c = Some False \<and> \<not> IsSingleton (Metav1 c) \<and> Name c = Name a
        \<longrightarrow> Identify (Metav1 c) \<noteq> Identify (Metav1 a))"
proof -
  have ia: "Identify (Metav1 a) = Some (NameNamespaceIdentifier (Namespace a) (Name a))"
    using assms(1-4) by (rule Identify_namespaced)
  have ib: "Identify (Metav1 b) = Some (NameNamespaceIdentifier (Namespace b) (Name b))"
    using assms(5-8) by (rule Identify_namespaced)
  have 1: "Identify (Metav1 a) = Some (Namespace a @ ''-'' @ Name a)"
    using ia by (simp add: NameNamespaceIdentifier_def)
  have 2: "snd (ObjectKey_of (namespacedResourceContextImpl rc (Namespace a)) (Name a))
        = Namespace a @ ''-'' @ Name a"
    by (simp add: ObjectKey_of_namespaced NameNamespaceIdentifier_def)
  have 3: "Name a = Name b \<and> Namespace a \<noteq> Namespace b
        \<longrightarrow> Identify (Metav1 a) \<noteq> Identify (Metav1 b)"
    using ia ib by (simp add: NameNamespaceIdentifier_def)
  have 4: "Namespace a = Namespace b \<and> Name a \<noteq> Name b
        \<longrightarrow> Identify (Metav1 a) \<noteq> Identify (Metav1 b)"
    using ia ib by (simp add: NameNamespaceIdentifier_def)
  have 5: "CHR ''-'' \<notin> set (Namespace a) \<and> CHR ''-'' \<notin> set (Namespace b)
        \<and> (Namespace a, Name a) \<noteq> (Namespace b, Name b)
        \<longrightarrow> Identify (Metav1 a) \<noteq> Identify (Metav1 b)"
    using ia ib NameNamespaceIdentifier_dash_free [of "Namespace a" "Namespace b" "Name a" "Name b"]
    by auto
  have 6: "\<forall>c. Namespaced_impl c = Some False \<and> \<not> IsSingleton (Metav1 c) \<and> Name c = Name a
        \<longrightarrow> Identify (Metav1 c) \<noteq> Identify (Metav1 a)"
    using ia NameNamespaceIdentifier_not_name [of "Namespace a" "Name a"]
    by (auto simp: Identify_cluster_scoped)
  from 1 2 3 4 5 6 show ?thesis by blast
qed

text \<open>The theorem at two cassettes of the projects p1 and p2, and a project of the same name.\<close>

theorem namespaced_identifier_witness:
  "Identify (Metav1 (aCassette ''p1'' ''001'')) = Some ''p1-001''
   \<and> snd (ObjectKey_of (namespacedResourceContextImpl
             (resourceContextImpl (request '''') cassettesGVKR) ''p1'') ''001'') = ''p1-001''
   \<and> Identify (Metav1 (aCassette ''p1'' ''001'')) \<noteq> Identify (Metav1 (aCassette ''p2'' ''001''))
   \<and> Identify (Metav1 (aProject '''' ''001'')) \<noteq> Identify (Metav1 (aCassette ''p1'' ''001''))"
proof -
  have a: "IsNamespaced (Metav1 (aCassette ''p1'' ''001''))"
    "\<not> IsSingleton (Metav1 (aCassette ''p1'' ''001''))"
    "Namespace (aCassette ''p1'' ''001'') \<noteq> ''''" "Name (aCassette ''p1'' ''001'') \<noteq> ''''"
    by (simp_all add: IsNamespaced_def IsSingleton_def aCassette_def)
  have b: "IsNamespaced (Metav1 (aCassette ''p2'' ''001''))"
    "\<not> IsSingleton (Metav1 (aCassette ''p2'' ''001''))"
    "Namespace (aCassette ''p2'' ''001'') \<noteq> ''''" "Name (aCassette ''p2'' ''001'') \<noteq> ''''"
    by (simp_all add: IsNamespaced_def IsSingleton_def aCassette_def)
  have c: "Namespaced_impl (aProject '''' ''001'') = Some False"
    "\<not> IsSingleton (Metav1 (aProject '''' ''001''))"
    "Name (aProject '''' ''001'') = Name (aCassette ''p1'' ''001'')"
    by (simp_all add: IsSingleton_def aProject_def aCassette_def)
  have n: "Name (aCassette ''p1'' ''001'') = Name (aCassette ''p2'' ''001'')"
    "Namespace (aCassette ''p1'' ''001'') \<noteq> Namespace (aCassette ''p2'' ''001'')"
    "Namespace (aCassette ''p1'' ''001'') = ''p1''" "Name (aCassette ''p1'' ''001'') = ''001''"
    by (simp_all add: aCassette_def)
  show ?thesis
    using namespaced_identifier [OF a b, of "resourceContextImpl (request '''') cassettesGVKR"] c n
    by auto
qed

text \<open>
  Claim C1 as stated fails: the pairs (a-b, c) and (a, b-c) are distinct and share the
  identifier a-b-c, for an object and for a request path alike (there the whole key is
  shared), and a-b-c is also the identifier of the cluster-scoped name a-b-c.
\<close>

theorem namespaced_identifier_collision:
  "(''a-b'', ''c'') \<noteq> (''a'', ''b-c'')
   \<and> Identify (Metav1 (aCassette ''a-b'' ''c'')) = Identify (Metav1 (aCassette ''a'' ''b-c''))
   \<and> ObjectKey_of (namespacedResourceContextImpl
         (resourceContextImpl (request '''') cassettesGVKR) ''a-b'') ''c''
     = ObjectKey_of (namespacedResourceContextImpl
         (resourceContextImpl (request '''') cassettesGVKR) ''a'') ''b-c''
   \<and> Identify (Metav1 (aCassette ''a'' ''b-c'')) = Identify (Metav1 (aProject '''' ''a-b-c''))
   \<and> IsNamespaced (Metav1 (aCassette ''a-b'' ''c'')) \<and> IsNamespaced (Metav1 (aCassette ''a'' ''b-c''))
   \<and> \<not> IsNamespaced (Metav1 (aProject '''' ''a-b-c''))"
  by (simp add: Identify_def IsSingleton_def IsNamespaced_def aCassette_def aProject_def
      NameNamespaceIdentifier_def NameIdentifier_def ObjectKey_of_def NewObjectKey_def
      KindKey_of_def)

subsection \<open>Singletons\<close>

lemma SingletonKey_eq: "SingletonKey kind = (kind, ''singleton'')"
  by (simp add: SingletonKey_def NewObjectKey_def SingletonIdentifier_def SingletonIdentifierKey_def)

lemma IsSingleton_customPartialObject:
  "IsSingleton (Metav1 (customPartialObject po namespaced singleton)) = singleton"
  by (simp add: IsSingleton_def customPartialObject_def)

text \<open>
  Claim C3. An object of a singleton kind is identified by the one reserved identifier,
  whatever its name and namespace; so is a patch payload when the handler's kind is a
  singleton, whatever name and namespace the payload carries. \<^verbatim>\<open>getSingleton\<close>
  reads the store at the handler's kind and that identifier, and at no other key.
\<close>

theorem singleton_identifier:
  "(IsSingleton v \<longrightarrow> Identify v = Some ''singleton'')
   \<and> (Singleton_impl obj = Some True \<longrightarrow>
        Identify (Metav1 (obj\<lparr>Name := name, Namespace := ns\<rparr>)) = Some ''singleton'')
   \<and> (Singleton (rh_gvkr rh) \<longrightarrow>
        Identify (Metav1 (customPartialObject po (Namespaced (rh_gvkr rh)) (Singleton (rh_gvkr rh))))
          = Some ''singleton'')
   \<and> getSingleton st rh rc w =
        (case Get st (Store w) (GVK (Resource_of rc), ''singleton'') of
           Inl err \<Rightarrow>
             (if errors_Is err ErrNotFound
              then (Return (Some (StatusError 404 (ErrorText ErrNotFound))), w)
              else (Return (Some err), w))
         | Inr stored \<Rightarrow> returning (JSONIndent st rc 200 stored w))"
proof -
  have 1: "IsSingleton v \<longrightarrow> Identify v = Some ''singleton''"
    by (simp add: Identify_singleton SingletonIdentifierKey_def)
  have 2: "Singleton_impl obj = Some True \<longrightarrow>
        Identify (Metav1 (obj\<lparr>Name := name, Namespace := ns\<rparr>)) = Some ''singleton''"
    by (simp add: Identify_def IsSingleton_def SingletonIdentifier_def SingletonIdentifierKey_def)
  have 3: "Singleton (rh_gvkr rh) \<longrightarrow>
        Identify (Metav1 (customPartialObject po (Namespaced (rh_gvkr rh)) (Singleton (rh_gvkr rh))))
          = Some ''singleton''"
    by (simp add: Identify_def IsSingleton_customPartialObject SingletonIdentifier_def
        SingletonIdentifierKey_def)
  have 4: "getSingleton st rh rc w =
        (case Get st (Store w) (GVK (Resource_of rc), ''singleton'') of
           Inl err \<Rightarrow>
             (if errors_Is err ErrNotFound
              then (Return (Some (StatusError 404 (ErrorText ErrNotFound))), w)
              else (Return (Some err), w))
         | Inr stored \<Rightarrow> returning (JSONIndent st rc 200 stored w))"
    by (simp add: getSingleton_def returnFromStorage_def SingletonKey_eq KindKey_of_def
        NewKindKey_def returning_def newStatusError_def StatusNotFound_def StatusOK_def
        split: sum.splits)
  from 1 2 3 4 show ?thesis by blast
qed


text \<open>The theorem at the Recorder kind, with one recorder stored.\<close>

theorem singleton_identifier_witness:
  "Identify (Metav1 (aRecorder ''foo'' ''bar'')) = Some ''singleton''
   \<and> Identify (Metav1 (aRecorder '''' '''')) = Some ''singleton''
   \<and> Identify (Metav1 (customPartialObject (aPartial ''Recorder'' ''y'' ''x'') False True))
       = Some ''singleton''
   \<and> getSingleton memStorage (fst (newResourceHandler apiGroup recorderGVKR []))
       (resourceContextImpl (request '''') recorderGVKR)
       (world0 [((kindGVK ''Recorder'', ''singleton''), aRecorder '''' '''')])
     = (Return None,
        \<lparr>Store = [((kindGVK ''Recorder'', ''singleton''), aRecorder '''' '''')], Warning = [],
         Status = Some 200, Written = Some (aRecorder '''' '''')\<rparr>)"
proof -
  let ?rh = "fst (newResourceHandler apiGroup recorderGVKR []) :: memStore resourceHandlerImpl"
  let ?rc = "resourceContextImpl (request '''') recorderGVKR"
  let ?w = "world0 [((kindGVK ''Recorder'', ''singleton''), aRecorder '''' '''')]"
  have s: "IsSingleton (Metav1 (aRecorder ''foo'' ''bar''))"
    by (simp add: IsSingleton_def aRecorder_def)
  have i: "Singleton_impl (aRecorder ''foo'' ''bar'') = Some True"
    by (simp add: aRecorder_def)
  have r: "aRecorder ''foo'' ''bar''\<lparr>Name := '''', Namespace := ''''\<rparr> = aRecorder '''' ''''"
    by (simp add: aRecorder_def)
  have g: "Singleton (rh_gvkr ?rh)" "Namespaced (rh_gvkr ?rh) = False"
    by (simp_all add: newResourceHandler_def recorderGVKR_def Let_def)
  have k: "Get memStorage (Store ?w) (GVK (Resource_of ?rc), ''singleton'') = Inr (aRecorder '''' '''')"
    by (simp add: memStorage_def memGet_def world0_def GVK_def recorderGVKR_def kindGVK_def)
  have j: "JSONIndent memStorage ?rc 200 (aRecorder '''' '''') ?w
      = (None, ?w\<lparr>Status := Some 200, Written := Some (aRecorder '''' '''')\<rparr>)"
    by (simp add: JSONIndent_def ShouldDefault_def request_def memStorage_def)
  show ?thesis
    using singleton_identifier [of "Metav1 (aRecorder ''foo'' ''bar'')" "aRecorder ''foo'' ''bar''"
        "''''" "''''" ?rh "aPartial ''Recorder'' ''y'' ''x''" memStorage ?rc ?w] s i r g k j
    by (simp add: returning_def world0_def)
qed

section \<open>Route construction\<close>

lemma routes_cluster_scoped:
  assumes "\<not> Namespaced gvkr" and "\<not> Singleton gvkr"
  shows "snd (newResourceHandler parent gvkr []) =
    (let p = GroupPrefix parent @ ''/'' @ Resource gvkr;
         m = GroupMiddleware parent @ [resourceContextMW gvkr]
     in [\<lparr>RouteMethod = POST, RoutePath = p @ ''/'', RouteHandler = rh_create, RouteMiddleware = m\<rparr>,
         \<lparr>RouteMethod = PATCH, RoutePath = p @ ''/'', RouteHandler = rh_patch, RouteMiddleware = m\<rparr>,
         \<lparr>RouteMethod = PUT, RoutePath = p @ ''/'', RouteHandler = rh_update, RouteMiddleware = m\<rparr>,
         \<lparr>RouteMethod = GET, RoutePath = p @ ''/'', RouteHandler = rh_list, RouteMiddleware = m\<rparr>,
         \<lparr>RouteMethod = GET, RoutePath = p @ ''/:name/'', RouteHandler = rh_get,
           RouteMiddleware = m @ [namedResourceContextMW]\<rparr>,
         \<lparr>RouteMethod = DELETE, RoutePath = p @ ''/:name/'', RouteHandler = rh_delete,
           RouteMiddleware = m @ [namedResourceContextMW]\<rparr>])"
  using assms
  by (simp add: newResourceHandler_def Group_Add_def Group_Group_def nameParamPath_def Let_def)

lemma routes_namespaced:
  assumes "Namespaced gvkr" and "\<not> Singleton gvkr"
  shows "snd (newResourceHandler parent gvkr []) =
    (let p = GroupPrefix parent @ ''/namespaces/:namespace/'' @ Resource gvkr;
         m = GroupMiddleware parent @ [resourceContextMW gvkr, namespacedResourceContextMW]
     in [\<lparr>RouteMethod = GET, RoutePath = GroupPrefix parent @ ''/'' @ Resource gvkr @ ''/'',
           RouteHandler = rh_list, RouteMiddleware = GroupMiddleware parent @ [resourceContextMW gvkr]\<rparr>,
         \<lparr>RouteMethod = POST, RoutePath = p @ ''/'', RouteHandler = rh_create, RouteMiddleware = m\<rparr>,
         \<lparr>RouteMethod = PATCH, RoutePath = p @ ''/'', RouteHandler = rh_patch, RouteMiddleware = m\<rparr>,
         \<lparr>RouteMethod = PUT, RoutePath = p @ ''/'', RouteHandler = rh_update, RouteMiddleware = m\<rparr>,
         \<lparr>RouteMethod = GET, RoutePath = p @ ''/'', RouteHandler = rh_list, RouteMiddleware = m\<rparr>,
         \<lparr>RouteMethod = GET, RoutePath = p @ ''/:name/'', RouteHandler = rh_get,
           RouteMiddleware = m @ [namedResourceContextMW]\<rparr>,
         \<lparr>RouteMethod = DELETE, RoutePath = p @ ''/:name/'', RouteHandler = rh_delete,
           RouteMiddleware = m @ [namedResourceContextMW]\<rparr>])"
  using assms
  by (simp add: newResourceHandler_def Group_Add_def Group_Group_def nameParamPath_def Let_def)

lemma routes_singleton:
  assumes "\<not> Namespaced gvkr" and "Singleton gvkr"
  shows "snd (newResourceHandler parent gvkr []) =
    (let p = GroupPrefix parent @ ''/'' @ Resource gvkr;
         m = GroupMiddleware parent @ [resourceContextMW gvkr]
     in [\<lparr>RouteMethod = POST, RoutePath = p @ ''/'', RouteHandler = rh_create, RouteMiddleware = m\<rparr>,
         \<lparr>RouteMethod = PATCH, RoutePath = p @ ''/'', RouteHandler = rh_patch, RouteMiddleware = m\<rparr>,
         \<lparr>RouteMethod = PUT, RoutePath = p @ ''/'', RouteHandler = rh_update, RouteMiddleware = m\<rparr>,
         \<lparr>RouteMethod = GET, RoutePath = p @ ''/'', RouteHandler = rh_getSingleton, RouteMiddleware = m\<rparr>])"
  using assms
  by (simp add: newResourceHandler_def Group_Add_def Group_Group_def nameParamPath_def Let_def)

lemma routes_append:
  "snd (newResourceHandler parent gvkr routes :: 's resourceHandlerImpl \<times> Route list)
     = routes @ snd (newResourceHandler parent gvkr [] :: 's resourceHandlerImpl \<times> Route list)"
  by (simp add: newResourceHandler_def Group_Add_def Group_Group_def Let_def)



text \<open>
  Claim C2, as the code has it. A cluster-scoped plural kind gets POST, PATCH, PUT and GET
  (list) on /resource/ and GET, DELETE on /resource/:name/. A namespaced plural kind gets
  GET (list over all namespaces) on /resource/ and, under /namespaces/:namespace/resource,
  POST, PATCH, PUT and GET (list) on / and GET, DELETE on /:name/. A cluster-scoped
  singleton gets POST, PATCH, PUT and GET (the singleton itself) on /resource/ and no
  name route. The routes are added after those registered before.
\<close>

theorem newResourceHandler_routes:
  "(\<not> Namespaced gvkr \<and> \<not> Singleton gvkr \<longrightarrow>
      map method_path_handler (snd (newResourceHandler parent gvkr [] :: 's resourceHandlerImpl \<times> Route list)) =
        (let p = GroupPrefix parent @ ''/'' @ Resource gvkr
         in [(POST, p @ ''/'', rh_create), (PATCH, p @ ''/'', rh_patch),
             (PUT, p @ ''/'', rh_update), (GET, p @ ''/'', rh_list),
             (GET, p @ ''/:name/'', rh_get), (DELETE, p @ ''/:name/'', rh_delete)]))
   \<and> (Namespaced gvkr \<and> \<not> Singleton gvkr \<longrightarrow>
      map method_path_handler (snd (newResourceHandler parent gvkr [] :: 's resourceHandlerImpl \<times> Route list)) =
        (let p = GroupPrefix parent @ ''/namespaces/:namespace/'' @ Resource gvkr
         in [(GET, GroupPrefix parent @ ''/'' @ Resource gvkr @ ''/'', rh_list),
             (POST, p @ ''/'', rh_create), (PATCH, p @ ''/'', rh_patch),
             (PUT, p @ ''/'', rh_update), (GET, p @ ''/'', rh_list),
             (GET, p @ ''/:name/'', rh_get), (DELETE, p @ ''/:name/'', rh_delete)]))
   \<and> (\<not> Namespaced gvkr \<and> Singleton gvkr \<longrightarrow>
      map method_path_handler (snd (newResourceHandler parent gvkr [] :: 's resourceHandlerImpl \<times> Route list)) =
        (let p = GroupPrefix parent @ ''/'' @ Resource gvkr
         in [(POST, p @ ''/'', rh_create), (PATCH, p @ ''/'', rh_patch),
             (PUT, p @ ''/'', rh_update), (GET, p @ ''/'', rh_getSingleton)]))
   \<and> snd (newResourceHandler parent gvkr routes :: 's resourceHandlerImpl \<times> Route list)
       = routes @ snd (newResourceHandler parent gvkr [] :: 's resourceHandlerImpl \<times> Route list)"
proof -
  have 1: "\<not> Namespaced gvkr \<and> \<not> Singleton gvkr \<longrightarrow>
      map method_path_handler (snd (newResourceHandler parent gvkr [] :: 's resourceHandlerImpl \<times> Route list)) =
        (let p = GroupPrefix parent @ ''/'' @ Resource gvkr
         in [(POST, p @ ''/'', rh_create), (PATCH, p @ ''/'', rh_patch),
             (PUT, p @ ''/'', rh_update), (GET, p @ ''/'', rh_list),
             (GET, p @ ''/:name/'', rh_get), (DELETE, p @ ''/:name/'', rh_delete)])"
    by (simp add: routes_cluster_scoped method_path_handler_def Let_def)
  have 2: "Namespaced gvkr \<and> \<not> Singleton gvkr \<longrightarrow>
      map method_path_handler (snd (newResourceHandler parent gvkr [] :: 's resourceHandlerImpl \<times> Route list)) =
        (let p = GroupPrefix parent @ ''/namespaces/:namespace/'' @ Resource gvkr
         in [(GET, GroupPrefix parent @ ''/'' @ Resource gvkr @ ''/'', rh_list),
             (POST, p @ ''/'', rh_create), (PATCH, p @ ''/'', rh_patch),
             (PUT, p @ ''/'', rh_update), (GET, p @ ''/'', rh_list),
             (GET, p @ ''/:name/'', rh_get), (DELETE, p @ ''/:name/'', rh_delete)])"
    by (simp add: routes_namespaced method_path_handler_def Let_def)
  have 3: "\<not> Namespaced gvkr \<and> Singleton gvkr \<longrightarrow>
      map method_path_handler (snd (newResourceHandler parent gvkr [] :: 's resourceHandlerImpl \<times> Route list)) =
        (let p = GroupPrefix parent @ ''/'' @ Resource gvkr
         in [(POST, p @ ''/'', rh_create), (PATCH, p @ ''/'', rh_patch),
             (PUT, p @ ''/'', rh_update), (GET, p @ ''/'', rh_getSingleton)])"
    by (simp add: routes_singleton method_path_handler_def Let_def)
  have 4: "snd (newResourceHandler parent gvkr routes :: 's resourceHandlerImpl \<times> Route list)
       = routes @ snd (newResourceHandler parent gvkr [] :: 's resourceHandlerImpl \<times> Route list)"
    by (rule routes_append)
  from 1 2 3 4 show ?thesis by blast
qed

text \<open>The theorem at the three kinds of the application.\<close>

theorem newResourceHandler_routes_witness:
  "map method_path_handler (snd (newResourceHandler apiGroup projectsGVKR [] :: memStore resourceHandlerImpl \<times> Route list)) =
     [(POST, ''/apis/digitized.luxaslabs.com/v1alpha1/projects/'', rh_create),
      (PATCH, ''/apis/digitized.luxaslabs.com/v1alpha1/projects/'', rh_patch),
      (PUT, ''/apis/digitized.luxaslabs.com/v1alpha1/projects/'', rh_update),
      (GET, ''/apis/digitized.luxaslabs.com/v1alpha1/projects/'', rh_list),
      (GET, ''/apis/digitized.luxaslabs.com/v1alpha1/projects/:name/'', rh_get),
      (DELETE, ''/apis/digitized.luxaslabs.com/v1alpha1/projects/:name/'', rh_delete)]
   \<and> map method_path_handler (snd (newResourceHandler apiGroup cassettesGVKR [] :: memStore resourceHandlerImpl \<times> Route list)) =
     [(GET, ''/apis/digitized.luxaslabs.com/v1alpha1/cassettes/'', rh_list),
      (POST, ''/apis/digitized.luxaslabs.com/v1alpha1/namespaces/:namespace/cassettes/'', rh_create),
      (PATCH, ''/apis/digitized.luxaslabs.com/v1alpha1/namespaces/:namespace/cassettes/'', rh_patch),
      (PUT, ''/apis/digitized.luxaslabs.com/v1alpha1/namespaces/:namespace/cassettes/'', rh_update),
      (GET, ''/apis/digitized.luxaslabs.com/v1alpha1/namespaces/:namespace/cassettes/'', rh_list),
      (GET, ''/apis/digitized.luxaslabs.com/v1alpha1/namespaces/:namespace/cassettes/:name/'', rh_get),
      (DELETE, ''/apis/digitized.luxaslabs.com/v1alpha1/namespaces/:namespace/cassettes/:name/'', rh_delete)]
   \<and> map method_path_handler (snd (newResourceHandler apiGroup recorderGVKR [] :: memStore resourceHandlerImpl \<times> Route list)) =
     [(POST, ''/apis/digitized.luxaslabs.com/v1alpha1/recorder/'', rh_create),
      (PATCH, ''/apis/digitized.luxaslabs.com/v1alpha1/recorder/'', rh_patch),
      (PUT, ''/apis/digitized.luxaslabs.com/v1alpha1/recorder/'', rh_update),
      (GET, ''/apis/digitized.luxaslabs.com/v1alpha1/recorder/'', rh_getSingleton)]"
proof -
  have p: "\<not> Namespaced projectsGVKR \<and> \<not> Singleton projectsGVKR"
    by (simp add: projectsGVKR_def)
  have c: "Namespaced cassettesGVKR \<and> \<not> Singleton cassettesGVKR"
    by (simp add: cassettesGVKR_def)
  have r: "\<not> Namespaced recorderGVKR \<and> Singleton recorderGVKR"
    by (simp add: recorderGVKR_def)
  have n: "Resource projectsGVKR = ''projects''" "Resource cassettesGVKR = ''cassettes''"
    "Resource recorderGVKR = ''recorder''"
    "GroupPrefix apiGroup = ''/apis/digitized.luxaslabs.com/v1alpha1''"
    by (simp_all add: projectsGVKR_def cassettesGVKR_def recorderGVKR_def apiGroup_def)
  show ?thesis
    using newResourceHandler_routes [where ?'s = memStore, of projectsGVKR apiGroup "[]"]
      newResourceHandler_routes [where ?'s = memStore, of cassettesGVKR apiGroup "[]"]
      newResourceHandler_routes [where ?'s = memStore, of recorderGVKR apiGroup "[]"] p c r
    by (simp add: n Let_def)
qed

text \<open>
  Claim C2 as stated fails. The code registers PATCH on /projects/ and POST on /recorder/,
  which the table does not list, and the table lists POST on /cassettes/, which the code
  registers under /namespaces/:namespace/cassettes/ only.
\<close>

theorem route_table_differs:
  "(PATCH, ''/apis/digitized.luxaslabs.com/v1alpha1/projects/'')
      \<in> set (map method_path (snd (newResourceHandler apiGroup projectsGVKR [] :: memStore resourceHandlerImpl \<times> Route list)))
   \<and> (PATCH, ''/apis/digitized.luxaslabs.com/v1alpha1/projects/'')
      \<notin> spec_table_routes (GroupPrefix apiGroup) projectsGVKR
   \<and> (POST, ''/apis/digitized.luxaslabs.com/v1alpha1/recorder/'')
      \<in> set (map method_path (snd (newResourceHandler apiGroup recorderGVKR [] :: memStore resourceHandlerImpl \<times> Route list)))
   \<and> (POST, ''/apis/digitized.luxaslabs.com/v1alpha1/recorder/'')
      \<notin> spec_table_routes (GroupPrefix apiGroup) recorderGVKR
   \<and> (POST, ''/apis/digitized.luxaslabs.com/v1alpha1/cassettes/'')
      \<in> spec_table_routes (GroupPrefix apiGroup) cassettesGVKR
   \<and> (POST, ''/apis/digitized.luxaslabs.com/v1alpha1/cassettes/'')
      \<notin> set (map method_path (snd (newResourceHandler apiGroup cassettesGVKR [] :: memStore resourceHandlerImpl \<times> Route list)))"
  by (simp add: newResourceHandler_def Group_Add_def Group_Group_def nameParamPath_def Let_def
      method_path_def spec_table_routes_def apiGroup_def projectsGVKR_def recorderGVKR_def
      cassettesGVKR_def)

section \<open>The hook pipeline\<close>

lemma runObjectHooks_append:
  "runObjectHooks (pre @ post) rc obj w =
     (case runObjectHooks pre rc obj w of
        (Some err, obj1, w1) \<Rightarrow> (Some err, obj1, w1)
      | (None, obj1, w1) \<Rightarrow> runObjectHooks post rc obj1 w1)"
proof (induction pre arbitrary: obj w)
  case Nil
  then show ?case by simp
next
  case (Cons hook pre)
  then show ?case
    by (cases "hook rc obj w") (auto split: option.splits)
qed

lemma runNamedHooks_append:
  "runNamedHooks (pre @ post) rc w =
     (case runNamedHooks pre rc w of
        (Some err, w1) \<Rightarrow> (Some err, w1)
      | (None, w1) \<Rightarrow> runNamedHooks post rc w1)"
proof (induction pre arbitrary: w)
  case Nil
  then show ?case by simp
next
  case (Cons hook pre)
  then show ?case
    by (cases "hook rc w") (auto split: option.splits)
qed

lemma runObjectHooks_abort:
  assumes "runObjectHooks pre rc obj w = (None, obj1, w1)"
    and "h rc obj1 w1 = (Some err, obj2, w2)"
  shows "runObjectHooks (pre @ h # post) rc obj w = (Some err, obj2, w2)"
  using assms by (simp add: runObjectHooks_append)

lemma runNamedHooks_abort:
  assumes "runNamedHooks pre rc w = (None, w1)"
    and "h rc w1 = (Some err, w2)"
  shows "runNamedHooks (pre @ h # post) rc w = (Some err, w2)"
  using assms by (simp add: runNamedHooks_append)









lemmas kind_defs = projectsGVKR_def cassettesGVKR_def recorderGVKR_def kindGVK_def digitizedGV_def
  aProject_def aCassette_def aRecorder_def aPartial_def

lemmas mem_defs = memStorage_def memGet_def memCreate_def memUpdate_def memPatch_def
  memDelete_def memObjectKeyFor_def memDecode_def memDecodePartialObjects_def request_def
  world0_def

lemmas identity_defs = Identify_def IsSingleton_def IsNamespaced_def NameIdentifier_def
  NameNamespaceIdentifier_def SingletonIdentifier_def SingletonIdentifierKey_def
  NewObjectKey_def NewKindKey_def GVK_def KindKey_of_def ObjectKey_of_def SingletonKey_def

lemmas handler_defs = validateBody_def decodeObject_def ValidateIfPossible_def Warnf_def
  newStatusError_def newStatusErrorf_def StatusBadRequest_def StatusNotFound_def
  StatusInternalServerError_def StatusOK_def StatusCreated_def StatusNoContent_def
  JSONIndent_def ShouldDefault_def returning_def




section \<open>Create on an existing key\<close>

text \<open>
  Claim C5. When the store's Create answers with an error that is, or wraps,
  \<^verbatim>\<open>ErrAlreadyExists\<close>, create returns the status error with code 400 whose message
  is that of \<^verbatim>\<open>ErrAlreadyExists\<close>. The state after the request is the state after the
  hooks with the store as Create left it: the handler does nothing more to the store. So
  with a store whose refused Create changes nothing, every key reads after the request as
  it read before the Create.
\<close>

theorem create_existing_key:
  assumes "decodeObject st rh rc w = (Inr obj, w0)"
    and "runObjectHooks (postHooks rh) rc obj w0 = (None, obj1, w1)"
    and "Create st (Store w1) obj1 = (Some err, s)"
    and "errors_Is err ErrAlreadyExists"
  shows "create st rh rc w
      = (Return (Some (StatusError 400 (ErrorText ErrAlreadyExists))), w1\<lparr>Store := s\<rparr>)
    \<and> (s = Store w1 \<longrightarrow>
         (\<forall>key. Get st (Store (snd (create st rh rc w))) key = Get st (Store w1) key))"
  using assms by (simp add: create_def newStatusError_def StatusBadRequest_def)

text \<open>
  The theorem at a store that holds the project p1 already, with another payload than
  the request's: the request is refused with code 400 and the stored project is the one
  that was there.
\<close>

theorem create_existing_key_witness:
  "create memStorage (fst (newResourceHandler apiGroup projectsGVKR []))
       (resourceContextImpl (request ''project p1'') projectsGVKR)
       (world0 [((kindGVK ''Project'', ''p1''), aProject '''' ''p1''\<lparr>Payload := ''kept''\<rparr>)])
     = (Return (Some (StatusError 400 (ErrorText ErrAlreadyExists))),
        world0 [((kindGVK ''Project'', ''p1''), aProject '''' ''p1''\<lparr>Payload := ''kept''\<rparr>)])
   \<and> Get memStorage
        (Store (snd (create memStorage (fst (newResourceHandler apiGroup projectsGVKR []))
           (resourceContextImpl (request ''project p1'') projectsGVKR)
           (world0 [((kindGVK ''Project'', ''p1''), aProject '''' ''p1''\<lparr>Payload := ''kept''\<rparr>)]))))
        (kindGVK ''Project'', ''p1'')
     = Inr (aProject '''' ''p1''\<lparr>Payload := ''kept''\<rparr>)"
proof -
  let ?rh = "fst (newResourceHandler apiGroup projectsGVKR []) :: memStore resourceHandlerImpl"
  let ?rc = "resourceContextImpl (request ''project p1'') projectsGVKR"
  let ?w = "world0 [((kindGVK ''Project'', ''p1''), aProject '''' ''p1''\<lparr>Payload := ''kept''\<rparr>)]"
  have rh: "rh_gvkr ?rh = projectsGVKR" "postHooks ?rh = []"
    by (simp_all add: newResourceHandler_def Let_def)
  have dec: "decodeObject memStorage ?rh ?rc ?w = (Inr (aProject '''' ''p1''), ?w)"
    by (simp add: handler_defs mem_defs kind_defs identity_defs rh)
  have hooks: "runObjectHooks (postHooks ?rh) ?rc (aProject '''' ''p1'') ?w
      = (None, aProject '''' ''p1'', ?w)"
    by (simp add: rh)
  have cr: "Create memStorage (Store ?w) (aProject '''' ''p1'')
      = (Some (Wrapping ''create'' ErrAlreadyExists), Store ?w)"
    by (simp add: mem_defs kind_defs identity_defs)
  have wraps: "errors_Is (Wrapping ''create'' ErrAlreadyExists) ErrAlreadyExists"
    by simp
  have same: "?w\<lparr>Store := Store ?w\<rparr> = ?w"
    by simp
  have before: "Get memStorage (Store ?w) (kindGVK ''Project'', ''p1'')
      = Inr (aProject '''' ''p1''\<lparr>Payload := ''kept''\<rparr>)"
    by (simp add: mem_defs)
  from create_existing_key [OF dec hooks cr wraps] same before show ?thesis
    by simp
qed

section \<open>Reading an object\<close>

lemma returnFromStorage_found:
  assumes "Get st (Store w) key = Inr obj"
    and "(if ShouldDefault rc then Default st obj else Inr obj) = Inr obj'"
    and "Encode st (Group (Resource_of rc), Version (Resource_of rc)) obj' = None"
  shows "returnFromStorage st rh rc key w
      = (None, w\<lparr>Status := Some 200, Written := Some obj'\<rparr>)"
  using assms by (simp add: returnFromStorage_def JSONIndent_def StatusOK_def Let_def)

lemma returnFromStorage_not_found:
  assumes "Get st (Store w) key = Inl err" and "errors_Is err ErrNotFound"
  shows "returnFromStorage st rh rc key w
      = (Some (StatusError 404 (ErrorText ErrNotFound)), w)"
  using assms by (simp add: returnFromStorage_def newStatusError_def StatusNotFound_def)

text \<open>
  Claim C9. get reads the store at the key of the named context, getSingleton at the
  singleton key of the kind. When the store has an object there, the handler answers 200
  with that object (after the defaulting step, when the request has not switched it off)
  and returns nil; when the store answers with an error that is, or wraps,
  \<^verbatim>\<open>ErrNotFound\<close>, the handler returns the status error with code 404 and writes
  nothing.
\<close>

theorem get_found_or_404:
  "(Get st (Store w) (ObjectKey_of rc name) = Inr obj
      \<and> (if ShouldDefault rc then Default st obj else Inr obj) = Inr obj'
      \<and> Encode st (Group (Resource_of rc), Version (Resource_of rc)) obj' = None
      \<longrightarrow> get st rh (namedResourceContextImpl rc name) w
          = (Return None, w\<lparr>Status := Some 200, Written := Some obj'\<rparr>))
   \<and> (Get st (Store w) (ObjectKey_of rc name) = Inl err \<and> errors_Is err ErrNotFound
      \<longrightarrow> get st rh (namedResourceContextImpl rc name) w
          = (Return (Some (StatusError 404 (ErrorText ErrNotFound))), w))
   \<and> (Get st (Store w) (SingletonKey (KindKey_of rc)) = Inr obj
      \<and> (if ShouldDefault rc then Default st obj else Inr obj) = Inr obj'
      \<and> Encode st (Group (Resource_of rc), Version (Resource_of rc)) obj' = None
      \<longrightarrow> getSingleton st rh rc w
          = (Return None, w\<lparr>Status := Some 200, Written := Some obj'\<rparr>))
   \<and> (Get st (Store w) (SingletonKey (KindKey_of rc)) = Inl err \<and> errors_Is err ErrNotFound
      \<longrightarrow> getSingleton st rh rc w
          = (Return (Some (StatusError 404 (ErrorText ErrNotFound))), w))"
proof -
  let ?c = "namedResourceContextImpl rc name"
  have c: "ShouldDefault ?c = ShouldDefault rc" "Resource_of ?c = Resource_of rc"
    by (simp_all add: ShouldDefault_def)
  have 1: "Get st (Store w) (ObjectKey_of rc name) = Inr obj
      \<and> (if ShouldDefault rc then Default st obj else Inr obj) = Inr obj'
      \<and> Encode st (Group (Resource_of rc), Version (Resource_of rc)) obj' = None
      \<longrightarrow> get st rh ?c w = (Return None, w\<lparr>Status := Some 200, Written := Some obj'\<rparr>)"
    using returnFromStorage_found [of st w "ObjectKey_of rc name" obj ?c obj' rh]
    by (simp add: get_def returning_def c)
  have 2: "Get st (Store w) (ObjectKey_of rc name) = Inl err \<and> errors_Is err ErrNotFound
      \<longrightarrow> get st rh ?c w = (Return (Some (StatusError 404 (ErrorText ErrNotFound))), w)"
    using returnFromStorage_not_found [of st w "ObjectKey_of rc name" err rh ?c]
    by (simp add: get_def returning_def)
  have 3: "Get st (Store w) (SingletonKey (KindKey_of rc)) = Inr obj
      \<and> (if ShouldDefault rc then Default st obj else Inr obj) = Inr obj'
      \<and> Encode st (Group (Resource_of rc), Version (Resource_of rc)) obj' = None
      \<longrightarrow> getSingleton st rh rc w
          = (Return None, w\<lparr>Status := Some 200, Written := Some obj'\<rparr>)"
    using returnFromStorage_found [of st w "SingletonKey (KindKey_of rc)" obj rc obj' rh]
    by (simp add: getSingleton_def returning_def)
  have 4: "Get st (Store w) (SingletonKey (KindKey_of rc)) = Inl err \<and> errors_Is err ErrNotFound
      \<longrightarrow> getSingleton st rh rc w
          = (Return (Some (StatusError 404 (ErrorText ErrNotFound))), w)"
    using returnFromStorage_not_found [of st w "SingletonKey (KindKey_of rc)" err rh rc]
    by (simp add: getSingleton_def returning_def)
  from 1 2 3 4 show ?thesis by blast
qed

text \<open>
  The theorem at a store holding the cassette 001 of the project p1 and the recorder:
  both are read back, and the cassette 002 and the recorder of an empty store are not
  found.
\<close>

theorem get_found_or_404_witness:
  "get memStorage (fst (newResourceHandler apiGroup cassettesGVKR []))
       (namedResourceContextImpl (namespacedResourceContextImpl
          (resourceContextImpl (request '''') cassettesGVKR) ''p1'') ''001'')
       (world0 [((kindGVK ''Cassette'', ''p1-001''), aCassette ''p1'' ''001'')])
     = (Return None,
        \<lparr>Store = [((kindGVK ''Cassette'', ''p1-001''), aCassette ''p1'' ''001'')], Warning = [],
         Status = Some 200, Written = Some (aCassette ''p1'' ''001'')\<rparr>)
   \<and> get memStorage (fst (newResourceHandler apiGroup cassettesGVKR []))
       (namedResourceContextImpl (namespacedResourceContextImpl
          (resourceContextImpl (request '''') cassettesGVKR) ''p1'') ''002'')
       (world0 [((kindGVK ''Cassette'', ''p1-001''), aCassette ''p1'' ''001'')])
     = (Return (Some (StatusError 404 (ErrorText ErrNotFound))),
        world0 [((kindGVK ''Cassette'', ''p1-001''), aCassette ''p1'' ''001'')])
   \<and> getSingleton memStorage (fst (newResourceHandler apiGroup recorderGVKR []))
       (resourceContextImpl (request '''') recorderGVKR)
       (world0 [((kindGVK ''Recorder'', ''singleton''), aRecorder '''' '''')])
     = (Return None,
        \<lparr>Store = [((kindGVK ''Recorder'', ''singleton''), aRecorder '''' '''')], Warning = [],
         Status = Some 200, Written = Some (aRecorder '''' '''')\<rparr>)
   \<and> getSingleton memStorage (fst (newResourceHandler apiGroup recorderGVKR []))
       (resourceContextImpl (request '''') recorderGVKR) (world0 [])
     = (Return (Some (StatusError 404 (ErrorText ErrNotFound))), world0 [])"
proof -
  let ?ch = "fst (newResourceHandler apiGroup cassettesGVKR []) :: memStore resourceHandlerImpl"
  let ?rh = "fst (newResourceHandler apiGroup recorderGVKR []) :: memStore resourceHandlerImpl"
  let ?nc = "namespacedResourceContextImpl (resourceContextImpl (request '''') cassettesGVKR) ''p1''"
  let ?rc = "resourceContextImpl (request '''') recorderGVKR"
  let ?cw = "world0 [((kindGVK ''Cassette'', ''p1-001''), aCassette ''p1'' ''001'')]"
  let ?rw = "world0 [((kindGVK ''Recorder'', ''singleton''), aRecorder '''' '''')]"
  have off: "\<not> ShouldDefault ?nc" "\<not> ShouldDefault ?rc"
    by (simp_all add: ShouldDefault_def request_def)
  have enc: "Encode memStorage gv obj = None" for gv obj
    by (simp add: memStorage_def)
  have g1: "Get memStorage (Store ?cw) (ObjectKey_of ?nc ''001'') = Inr (aCassette ''p1'' ''001'')"
    by (simp add: mem_defs kind_defs identity_defs)
  have g2: "Get memStorage (Store ?cw) (ObjectKey_of ?nc ''002'') = Inl ErrNotFound"
    by (simp add: mem_defs kind_defs identity_defs)
  have g3: "Get memStorage (Store ?rw) (SingletonKey (KindKey_of ?rc)) = Inr (aRecorder '''' '''')"
    by (simp add: mem_defs kind_defs identity_defs)
  have g4: "Get memStorage (Store (world0 [])) (SingletonKey (KindKey_of ?rc)) = Inl ErrNotFound"
    by (simp add: mem_defs kind_defs identity_defs)
  have 1: "get memStorage ?ch (namedResourceContextImpl ?nc ''001'') ?cw
      = (Return None, ?cw\<lparr>Status := Some 200, Written := Some (aCassette ''p1'' ''001'')\<rparr>)"
    using get_found_or_404 [where st = memStorage and w = ?cw and rc = ?nc and name = "''001''"
        and obj = "aCassette ''p1'' ''001''" and obj' = "aCassette ''p1'' ''001''" and rh = ?ch]
      g1 off enc by simp
  have 2: "get memStorage ?ch (namedResourceContextImpl ?nc ''002'') ?cw
      = (Return (Some (StatusError 404 (ErrorText ErrNotFound))), ?cw)"
    using get_found_or_404 [where st = memStorage and w = ?cw and rc = ?nc and name = "''002''"
        and err = ErrNotFound and rh = ?ch] g2 by simp
  have 3: "getSingleton memStorage ?rh ?rc ?rw
      = (Return None, ?rw\<lparr>Status := Some 200, Written := Some (aRecorder '''' '''')\<rparr>)"
    using get_found_or_404 [where st = memStorage and w = ?rw and rc = ?rc
        and obj = "aRecorder '''' ''''" and obj' = "aRecorder '''' ''''" and rh = ?rh]
      g3 off enc by simp
  have 4: "getSingleton memStorage ?rh ?rc (world0 [])
      = (Return (Some (StatusError 404 (ErrorText ErrNotFound))), world0 [])"
    using get_found_or_404 [where st = memStorage and w = "world0 []" and rc = ?rc
        and err = ErrNotFound and rh = ?rh] g4 by simp
  from 1 2 3 4 show ?thesis by (simp add: world0_def)
qed

section \<open>Patch\<close>

text \<open>
  Claim C6. The body is read once, and the bytes read are what the partial decoder gets.
  The decoder is called in its single-object mode, whose guarantee (the code relies on
  it) is that a result without error holds exactly one object. Given that guarantee,
  whenever the decoder does not yield exactly one partial object, it has returned an
  error, patch returns a status error with code 400 that carries that error, and the
  state is untouched: the store's Patch has not been called, whatever the store is.
\<close>

theorem patch_rejects_undecodable:
  assumes "Body (Request_of rc) = Inr bytes"
    and "\<And>objs. DecodePartialObjects st bytes = Inr objs \<Longrightarrow> length objs = 1"
    and "\<not> (\<exists>po. DecodePartialObjects st bytes = Inr [po])"
  shows "\<exists>err. DecodePartialObjects st bytes = Inl err
    \<and> patch st rh rc w
      = (Return (Some (StatusError 400 (Sprintf ''couldn't decode patch: %v'' [Err err]))), w)"
proof (cases "DecodePartialObjects st bytes")
  case (Inl err)
  with assms(1) show ?thesis
    by (simp add: patch_def newStatusErrorf_def StatusBadRequest_def)
next
  case (Inr objs)
  with assms(2) have "length objs = 1" by simp
  then obtain po where "objs = [po]"
    by (cases objs) auto
  with Inr assms(3) show ?thesis by simp
qed

text \<open>
  The theorem at a body of two frames and at an empty body, on a store that holds a
  cassette: code 400, and the store and the response are as they were.
\<close>

theorem patch_rejects_undecodable_witness:
  "patch memStorage (fst (newResourceHandler apiGroup cassettesGVKR []))
       (namespacedResourceContextImpl
          (resourceContextImpl (request ''patch a --- patch b'') cassettesGVKR) ''p1'')
       (world0 [((kindGVK ''Cassette'', ''p1-001''), aCassette ''p1'' ''001'')])
     = (Return (Some (StatusError 400 (Sprintf ''couldn't decode patch: %v''
          [Err (Errorf ''unexpected number of frames: %d expected 1'' [Str ''2''])]))),
        world0 [((kindGVK ''Cassette'', ''p1-001''), aCassette ''p1'' ''001'')])
   \<and> patch memStorage (fst (newResourceHandler apiGroup cassettesGVKR []))
       (namespacedResourceContextImpl
          (resourceContextImpl (request '''') cassettesGVKR) ''p1'')
       (world0 [((kindGVK ''Cassette'', ''p1-001''), aCassette ''p1'' ''001'')])
     = (Return (Some (StatusError 400 (Sprintf ''couldn't decode patch: %v''
          [Err (Errorf ''unexpected number of frames: %d expected 1'' [Str ''0''])]))),
        world0 [((kindGVK ''Cassette'', ''p1-001''), aCassette ''p1'' ''001'')])"
proof -
  let ?rh = "fst (newResourceHandler apiGroup cassettesGVKR []) :: memStore resourceHandlerImpl"
  let ?two = "namespacedResourceContextImpl
      (resourceContextImpl (request ''patch a --- patch b'') cassettesGVKR) ''p1''"
  let ?none = "namespacedResourceContextImpl (resourceContextImpl (request '''') cassettesGVKR) ''p1''"
  let ?w = "world0 [((kindGVK ''Cassette'', ''p1-001''), aCassette ''p1'' ''001'')]"
  have body: "Body (Request_of ?two) = Inr ''patch a --- patch b''" "Body (Request_of ?none) = Inr ''''"
    by (simp_all add: request_def)
  have d2: "DecodePartialObjects memStorage ''patch a --- patch b''
      = Inl (Errorf ''unexpected number of frames: %d expected 1'' [Str ''2''])"
    by (simp add: memStorage_def memDecodePartialObjects_def)
  have d0: "DecodePartialObjects memStorage ''''
      = Inl (Errorf ''unexpected number of frames: %d expected 1'' [Str ''0''])"
    by (simp add: memStorage_def memDecodePartialObjects_def)
  have one2: "length objs = 1"
    if "DecodePartialObjects memStorage ''patch a --- patch b'' = Inr objs" for objs
    using that d2 by simp
  have one0: "length objs = 1" if "DecodePartialObjects memStorage '''' = Inr objs" for objs
    using that d0 by simp
  have not2: "\<not> (\<exists>po. DecodePartialObjects memStorage ''patch a --- patch b'' = Inr [po])"
    using d2 by simp
  have not0: "\<not> (\<exists>po. DecodePartialObjects memStorage '''' = Inr [po])"
    using d0 by simp
  from patch_rejects_undecodable [OF body(1) one2 not2, of ?rh ?w]
    patch_rejects_undecodable [OF body(2) one0 not0, of ?rh ?w] d2 d0
  show ?thesis by simp
qed

lemma customPartialObject_ignores_payload_flags:
  "customPartialObject (po\<lparr>Namespaced_impl := a, Singleton_impl := b\<rparr>) namespaced singleton
     = customPartialObject po namespaced singleton"
  by (simp add: customPartialObject_def)

lemma Identify_customPartialObject:
  "Identify (Metav1 (customPartialObject po namespaced singleton)) =
     (if singleton then Some ''singleton''
      else if \<not> namespaced then Some (Name po)
      else if Namespace po = '''' \<or> Name po = '''' then None
      else Some (Namespace po @ ''-'' @ Name po))"
  by (simp add: customPartialObject_def identity_defs)

lemma patch_forwards:
  assumes "Body (Request_of rc) = Inr bytes"
    and "DecodePartialObjects st bytes = Inr (po # rest)"
    and "ObjectKeyFor st (customPartialObject po (Namespaced (rh_gvkr rh)) (Singleton (rh_gvkr rh)))
       = Inr key"
  shows "patch st rh rc w =
     (case Patch st (Store w) key bytes of
        (Some err, s) \<Rightarrow> (Return (Some err), w\<lparr>Store := s\<rparr>)
      | (None, s) \<Rightarrow> returning (returnFromStorage st rh rc key (w\<lparr>Store := s\<rparr>)))"
  using assms by (simp add: patch_def Let_def)

text \<open>
  Claim C7. The object whose key patch asks the store for is the partial object with
  both capabilities answered by the handler's flags, so whatever the payload's object
  answers itself has no effect; with the identifier factory of this repository its
  identifier is made of the payload's name and namespace and those two flags alone. The
  store's Patch is called with that key and with the bytes read from the body.
\<close>

theorem patch_key_and_payload:
  "customPartialObject (po\<lparr>Namespaced_impl := a, Singleton_impl := b\<rparr>)
       (Namespaced (rh_gvkr rh)) (Singleton (rh_gvkr rh))
     = customPartialObject po (Namespaced (rh_gvkr rh)) (Singleton (rh_gvkr rh))
   \<and> Identify (Metav1 (customPartialObject po (Namespaced (rh_gvkr rh)) (Singleton (rh_gvkr rh)))) =
       (if Singleton (rh_gvkr rh) then Some ''singleton''
        else if \<not> Namespaced (rh_gvkr rh) then Some (Name po)
        else if Namespace po = '''' \<or> Name po = '''' then None
        else Some (Namespace po @ ''-'' @ Name po))
   \<and> (Body (Request_of rc) = Inr bytes \<and> DecodePartialObjects st bytes = Inr (po # rest)
       \<and> ObjectKeyFor st (customPartialObject po (Namespaced (rh_gvkr rh)) (Singleton (rh_gvkr rh)))
           = Inr key
       \<longrightarrow> patch st rh rc w =
          (case Patch st (Store w) key bytes of
             (Some err, s) \<Rightarrow> (Return (Some err), w\<lparr>Store := s\<rparr>)
           | (None, s) \<Rightarrow> returning (returnFromStorage st rh rc key (w\<lparr>Store := s\<rparr>))))"
  using customPartialObject_ignores_payload_flags [where po = po and a = a and b = b]
    Identify_customPartialObject [where po = po]
    patch_forwards [where rc = rc and bytes = bytes and st = st and po = po and rest = rest
      and rh = rh and key = key and w = w]
  by blast
text \<open>
  The theorem at a patch for the cassette 001 of the project p1, and at a patch for the
  recorder whose payload names itself x in the namespace y: the first reaches the key
  p1-001 and the second the singleton key, each with the bytes of its body.
\<close>

theorem patch_key_and_payload_witness:
  "patch memStorage (fst (newResourceHandler apiGroup cassettesGVKR []))
       (namespacedResourceContextImpl
          (resourceContextImpl (request ''patch cassette p1/001'') cassettesGVKR) ''p1'')
       (world0 [((kindGVK ''Cassette'', ''p1-001''), aCassette ''p1'' ''001'')])
     = (Return None,
        \<lparr>Store = [((kindGVK ''Cassette'', ''p1-001''),
                   aCassette ''p1'' ''001''\<lparr>Payload := ''patch cassette p1/001''\<rparr>),
                  ((kindGVK ''Cassette'', ''p1-001''), aCassette ''p1'' ''001'')],
         Warning = [], Status = Some 200,
         Written = Some (aCassette ''p1'' ''001''\<lparr>Payload := ''patch cassette p1/001''\<rparr>)\<rparr>)
   \<and> patch memStorage (fst (newResourceHandler apiGroup recorderGVKR []))
       (resourceContextImpl (request ''patch recorder named x in y'') recorderGVKR)
       (world0 [((kindGVK ''Recorder'', ''singleton''), aRecorder '''' '''')])
     = (Return None,
        \<lparr>Store = [((kindGVK ''Recorder'', ''singleton''),
                   aRecorder '''' ''''\<lparr>Payload := ''patch recorder named x in y''\<rparr>),
                  ((kindGVK ''Recorder'', ''singleton''), aRecorder '''' '''')],
         Warning = [], Status = Some 200,
         Written = Some (aRecorder '''' ''''\<lparr>Payload := ''patch recorder named x in y''\<rparr>)\<rparr>)"
proof -
  let ?ch = "fst (newResourceHandler apiGroup cassettesGVKR []) :: memStore resourceHandlerImpl"
  let ?rh = "fst (newResourceHandler apiGroup recorderGVKR []) :: memStore resourceHandlerImpl"
  let ?cc = "namespacedResourceContextImpl
      (resourceContextImpl (request ''patch cassette p1/001'') cassettesGVKR) ''p1''"
  let ?rc = "resourceContextImpl (request ''patch recorder named x in y'') recorderGVKR"
  let ?cw = "world0 [((kindGVK ''Cassette'', ''p1-001''), aCassette ''p1'' ''001'')]"
  let ?rw = "world0 [((kindGVK ''Recorder'', ''singleton''), aRecorder '''' '''')]"
  have flags: "Namespaced (rh_gvkr ?ch)" "\<not> Singleton (rh_gvkr ?ch)"
    "\<not> Namespaced (rh_gvkr ?rh)" "Singleton (rh_gvkr ?rh)"
    by (simp_all add: newResourceHandler_def Let_def kind_defs)
  have body: "Body (Request_of ?cc) = Inr ''patch cassette p1/001''"
    "Body (Request_of ?rc) = Inr ''patch recorder named x in y''"
    by (simp_all add: request_def)
  have dec: "DecodePartialObjects memStorage ''patch cassette p1/001''
      = Inr (aPartial ''Cassette'' ''p1'' ''001'' # [])"
    "DecodePartialObjects memStorage ''patch recorder named x in y''
      = Inr (aPartial ''Recorder'' ''y'' ''x'' # [])"
    by (simp_all add: memStorage_def memDecodePartialObjects_def)
  have key: "ObjectKeyFor memStorage (customPartialObject (aPartial ''Cassette'' ''p1'' ''001'')
        (Namespaced (rh_gvkr ?ch)) (Singleton (rh_gvkr ?ch))) = Inr (kindGVK ''Cassette'', ''p1-001'')"
    "ObjectKeyFor memStorage (customPartialObject (aPartial ''Recorder'' ''y'' ''x'')
        (Namespaced (rh_gvkr ?rh)) (Singleton (rh_gvkr ?rh))) = Inr (kindGVK ''Recorder'', ''singleton'')"
    by (simp_all add: flags memStorage_def memObjectKeyFor_def identity_defs aPartial_def
        customPartialObject_def)
  have p1: "Patch memStorage (Store ?cw) (kindGVK ''Cassette'', ''p1-001'') ''patch cassette p1/001''
      = (None, ((kindGVK ''Cassette'', ''p1-001''),
                aCassette ''p1'' ''001''\<lparr>Payload := ''patch cassette p1/001''\<rparr>) # Store ?cw)"
    "Patch memStorage (Store ?rw) (kindGVK ''Recorder'', ''singleton'') ''patch recorder named x in y''
      = (None, ((kindGVK ''Recorder'', ''singleton''),
                aRecorder '''' ''''\<lparr>Payload := ''patch recorder named x in y''\<rparr>) # Store ?rw)"
    by (simp_all add: mem_defs)
  have r1: "returnFromStorage memStorage ?ch ?cc (kindGVK ''Cassette'', ''p1-001'')
        (?cw\<lparr>Store := ((kindGVK ''Cassette'', ''p1-001''),
                aCassette ''p1'' ''001''\<lparr>Payload := ''patch cassette p1/001''\<rparr>) # Store ?cw\<rparr>)
      = (None, \<lparr>Store = [((kindGVK ''Cassette'', ''p1-001''),
                   aCassette ''p1'' ''001''\<lparr>Payload := ''patch cassette p1/001''\<rparr>),
                  ((kindGVK ''Cassette'', ''p1-001''), aCassette ''p1'' ''001'')],
         Warning = [], Status = Some 200,
         Written = Some (aCassette ''p1'' ''001''\<lparr>Payload := ''patch cassette p1/001''\<rparr>)\<rparr>)"
    by (simp add: returnFromStorage_def handler_defs mem_defs)
  have r2: "returnFromStorage memStorage ?rh ?rc (kindGVK ''Recorder'', ''singleton'')
        (?rw\<lparr>Store := ((kindGVK ''Recorder'', ''singleton''),
                aRecorder '''' ''''\<lparr>Payload := ''patch recorder named x in y''\<rparr>) # Store ?rw\<rparr>)
      = (None, \<lparr>Store = [((kindGVK ''Recorder'', ''singleton''),
                   aRecorder '''' ''''\<lparr>Payload := ''patch recorder named x in y''\<rparr>),
                  ((kindGVK ''Recorder'', ''singleton''), aRecorder '''' '''')],
         Warning = [], Status = Some 200,
         Written = Some (aRecorder '''' ''''\<lparr>Payload := ''patch recorder named x in y''\<rparr>)\<rparr>)"
    by (simp add: returnFromStorage_def handler_defs mem_defs)
  have 1: "patch memStorage ?ch ?cc ?cw =
      (case Patch memStorage (Store ?cw) (kindGVK ''Cassette'', ''p1-001'') ''patch cassette p1/001'' of
         (Some err, s) \<Rightarrow> (Return (Some err), ?cw\<lparr>Store := s\<rparr>)
       | (None, s) \<Rightarrow> returning (returnFromStorage memStorage ?ch ?cc
            (kindGVK ''Cassette'', ''p1-001'') (?cw\<lparr>Store := s\<rparr>)))"
    using patch_key_and_payload [where rh = ?ch and rc = ?cc and st = memStorage and w = ?cw
        and bytes = "''patch cassette p1/001''" and po = "aPartial ''Cassette'' ''p1'' ''001''"
        and rest = "[]" and key = "(kindGVK ''Cassette'', ''p1-001'')"]
      body(1) dec(1) key(1) by blast
  have 2: "patch memStorage ?rh ?rc ?rw =
      (case Patch memStorage (Store ?rw) (kindGVK ''Recorder'', ''singleton'')
              ''patch recorder named x in y'' of
         (Some err, s) \<Rightarrow> (Return (Some err), ?rw\<lparr>Store := s\<rparr>)
       | (None, s) \<Rightarrow> returning (returnFromStorage memStorage ?rh ?rc
            (kindGVK ''Recorder'', ''singleton'') (?rw\<lparr>Store := s\<rparr>)))"
    using patch_key_and_payload [where rh = ?rh and rc = ?rc and st = memStorage and w = ?rw
        and bytes = "''patch recorder named x in y''" and po = "aPartial ''Recorder'' ''y'' ''x''"
        and rest = "[]" and key = "(kindGVK ''Recorder'', ''singleton'')"]
      body(2) dec(2) key(2) by blast
  have 3: "patch memStorage ?ch ?cc ?cw = returning (returnFromStorage memStorage ?ch ?cc
        (kindGVK ''Cassette'', ''p1-001'')
        (?cw\<lparr>Store := ((kindGVK ''Cassette'', ''p1-001''),
                aCassette ''p1'' ''001''\<lparr>Payload := ''patch cassette p1/001''\<rparr>) # Store ?cw\<rparr>))"
    unfolding 1 p1(1) by simp
  have 4: "patch memStorage ?rh ?rc ?rw = returning (returnFromStorage memStorage ?rh ?rc
        (kindGVK ''Recorder'', ''singleton'')
        (?rw\<lparr>Store := ((kindGVK ''Recorder'', ''singleton''),
                aRecorder '''' ''''\<lparr>Payload := ''patch recorder named x in y''\<rparr>) # Store ?rw\<rparr>))"
    unfolding 2 p1(2) by simp
  show ?thesis
    unfolding 3 4 r1 r2 by (simp add: returning_def)
qed

section \<open>Body validation\<close>

lemma decodeObject_validated:
  assumes "Decode st (Body (Request_of rc)) = Inr (Metav1 obj)"
  shows "decodeObject st rh rc w =
     (case validateBody st rh rc obj w of
        (Some err, obj', w') \<Rightarrow> (Inl (StatusError 400 (ErrorText err)), w')
      | (None, obj', w') \<Rightarrow> (Inr obj', w'))"
  using assms
  by (simp add: decodeObject_def newStatusError_def StatusBadRequest_def
      split: prod.splits option.splits)

lemma decodeObject_failure_returned:
  assumes "decodeObject st rh rc w = (Inl err, w')"
  shows "create st rh rc w = (Return (Some err), w')"
    and "update st rh rc w = (Return (Some err), w')"
  using assms by (simp_all add: create_def update_def)



section \<open>Namespace of the body against namespace of the path\<close>

lemma namespaced_route_context:
  assumes "namespacedResourceContextMiddleware rc0 ns = Inr rc"
  shows "rc = namespacedResourceContextImpl rc0 ns \<and> ns \<noteq> ''''"
  using assms by (auto simp: namespacedResourceContextMiddleware_def split: if_splits)

lemma validateBody_mismatch:
  assumes "ns \<noteq> ''''" and "Namespace obj \<noteq> ns"
  shows "\<exists>err obj' w'.
      validateBody st rh (namespacedResourceContextImpl rc0 ns) obj w = (Some err, obj', w')
      \<and> (w' = w \<or> w' = Warnf ''Non-namespaced resources must not have the .metadata.namespace field set. Pruning the field'' [] w)"
  using assms by (auto simp: validateBody_def)

text \<open>
  Claim C10. On a route with a namespace parameter (the context the namespace middleware
  hands on), when the body decodes to an object whose namespace is not the parameter's
  value, validation refuses it: create and update return a status error with code 400,
  whatever hooks are registered. The state is the one before the request, or that state
  with the pruning warning added, so no hook has run and the store is as it was.
\<close>

theorem body_namespace_must_match_path:
  assumes "namespacedResourceContextMiddleware rc0 ns = Inr rc"
    and "Decode st (Body (Request_of rc)) = Inr (Metav1 obj)"
    and "Namespace obj \<noteq> ns"
  shows "\<exists>err w'.
      create st rh rc w = (Return (Some (StatusError 400 (ErrorText err))), w')
      \<and> update st rh rc w = (Return (Some (StatusError 400 (ErrorText err))), w')
      \<and> (w' = w \<or> w' = Warnf ''Non-namespaced resources must not have the .metadata.namespace field set. Pruning the field'' [] w)
      \<and> Store w' = Store w"
proof -
  from namespaced_route_context [OF assms(1)]
  have rc: "rc = namespacedResourceContextImpl rc0 ns" and ns: "ns \<noteq> ''''"
    by simp_all
  from validateBody_mismatch [OF ns assms(3), of st rh rc0 w]
  obtain err obj' w' where
    v: "validateBody st rh rc obj w = (Some err, obj', w')"
    and w': "w' = w \<or> w' = Warnf ''Non-namespaced resources must not have the .metadata.namespace field set. Pruning the field'' [] w"
    unfolding rc by blast
  have d: "decodeObject st rh rc w = (Inl (StatusError 400 (ErrorText err)), w')"
    using decodeObject_validated [OF assms(2), of rh w] v by simp
  have s: "Store w' = Store w"
    using w' by (auto simp: Warnf_def)
  from decodeObject_failure_returned [OF d] w' s show ?thesis
    by blast
qed

text \<open>
  The theorem at a cassette of the project p1 sent to the routes of the project p2, on a
  handler with a hook on create and on update: code 400, and neither a mark of the hook
  nor a stored object.
\<close>

theorem body_namespace_must_match_path_witness:
  "create memStorage hookedCassettes
       (namespacedResourceContextImpl
          (resourceContextImpl (request ''cassette p1/001'') cassettesGVKR) ''p2'') (world0 [])
     = (Return (Some (StatusError 400 (ErrorText
          (Errorf ''Object namespace in body: %q doesn't match namespace in path: %q''
             [Str ''p1'', Str ''p2''])))), world0 [])
   \<and> update memStorage hookedCassettes
       (namespacedResourceContextImpl
          (resourceContextImpl (request ''cassette p1/001'') cassettesGVKR) ''p2'') (world0 [])
     = (Return (Some (StatusError 400 (ErrorText
          (Errorf ''Object namespace in body: %q doesn't match namespace in path: %q''
             [Str ''p1'', Str ''p2''])))), world0 [])"
proof -
  let ?base = "resourceContextImpl (request ''cassette p1/001'') cassettesGVKR"
  let ?rc = "namespacedResourceContextImpl ?base ''p2''"
  let ?w = "world0 ([] :: memStore)"
  let ?err = "Errorf ''Object namespace in body: %q doesn't match namespace in path: %q''
      [Str ''p1'', Str ''p2'']"
  have mw: "namespacedResourceContextMiddleware ?base ''p2'' = Inr ?rc"
    by (simp add: namespacedResourceContextMiddleware_def kind_defs)
  have dec: "Decode memStorage (Body (Request_of ?rc)) = Inr (Metav1 (aCassette ''p1'' ''001''))"
    by (simp add: memStorage_def memDecode_def request_def)
  have ne: "Namespace (aCassette ''p1'' ''001'') \<noteq> ''p2''"
    by (simp add: kind_defs)
  have gvkr: "rh_gvkr hookedCassettes = cassettesGVKR"
    by (simp add: hookedCassettes_def RegisterPOSTHook_def RegisterPUTHook_def
        newResourceHandler_def Let_def)
  have c: "create memStorage hookedCassettes ?rc ?w
      = (Return (Some (StatusError 400 (ErrorText ?err))), ?w)"
    by (simp add: create_def handler_defs mem_defs kind_defs IsNamespaced_def gvkr)
  from body_namespace_must_match_path [OF mw dec ne, of hookedCassettes ?w]
  obtain err w' where
    "create memStorage hookedCassettes ?rc ?w = (Return (Some (StatusError 400 (ErrorText err))), w')"
    and "update memStorage hookedCassettes ?rc ?w = (Return (Some (StatusError 400 (ErrorText err))), w')"
    by blast
  with c show ?thesis by simp
qed

end
